theory Spec2Isabelle
  imports Main "HOL-Library.Word"
begin

section \<open>Python text and bytes\<close>

text \<open>
  A Python \<open>str\<close> is a sequence of Unicode code points, so it is modelled as a list of
  code points (\<open>len\<close> is \<open>length\<close>); \<open>bytes\<close> is a list of octets. \<open>lit\<close> turns an
  ASCII literal of the source into such a list.
\<close>

type_synonym pystr = "nat list"
type_synonym pybytes = "8 word list"

definition lit :: "string \<Rightarrow> pystr" where
  "lit cs = map of_char cs"

definition isspace :: "nat \<Rightarrow> bool" where
  \<comment> \<open>the code points for which \<open>str.isspace\<close> holds; \<open>str.strip()\<close> and the regular
      expression class \<open>\s\<close> (on \<open>str\<close> patterns) use the same set\<close>
  "isspace c \<longleftrightarrow>
     (9 \<le> c \<and> c \<le> 13) \<or> (28 \<le> c \<and> c \<le> 32) \<or> c = 133 \<or> c = 160 \<or> c = 5760 \<or>
     (8192 \<le> c \<and> c \<le> 8202) \<or> c = 8232 \<or> c = 8233 \<or> c = 8239 \<or> c = 8287 \<or> c = 12288"

definition lstrip :: "pystr \<Rightarrow> pystr" where
  "lstrip s = dropWhile isspace s"

definition rstrip :: "pystr \<Rightarrow> pystr" where
  "rstrip s = rev (dropWhile isspace (rev s))"

definition strip :: "pystr \<Rightarrow> pystr" where
  \<comment> \<open>\<open>s.strip()\<close>\<close>
  "strip s = rstrip (lstrip s)"

definition rstrip_chars :: "pystr \<Rightarrow> pystr \<Rightarrow> pystr" where
  \<comment> \<open>\<open>s.rstrip(chars)\<close>\<close>
  "rstrip_chars s chars = rev (dropWhile (\<lambda>c. c \<in> set chars) (rev s))"

definition startswith :: "pystr \<Rightarrow> pystr \<Rightarrow> bool" where
  \<comment> \<open>\<open>s.startswith(p)\<close>\<close>
  "startswith s p \<longleftrightarrow> take (length p) s = p"

fun split_nl :: "pystr \<Rightarrow> pystr list" where
  \<comment> \<open>\<open>s.split("\n")\<close>; the empty string splits into one empty line\<close>
  "split_nl [] = [[]]"
| "split_nl (c # cs) =
     (if c = 10 then [] # split_nl cs
      else (case split_nl cs of l # ls \<Rightarrow> (c # l) # ls | [] \<Rightarrow> [[c]]))"

fun join_nl :: "pystr list \<Rightarrow> pystr" where
  \<comment> \<open>\<open>"\n".join(ls)\<close>\<close>
  "join_nl [] = []"
| "join_nl [l] = l"
| "join_nl (l # ls) = l @ 10 # join_nl ls"

section \<open>The two regular-expression substitutions of the formatter\<close>

definition ieq :: "nat \<Rightarrow> nat \<Rightarrow> bool" where
  \<comment> \<open>\<open>ieq p c\<close>: the text character \<open>c\<close> matches the pattern character \<open>p\<close> under
      \<open>re.IGNORECASE\<close>. The pattern characters used here are the backquote and the ASCII
      letters h, t, m, l, whose only case variants in Unicode are their ASCII capitals.\<close>
  "ieq p c \<longleftrightarrow> c = p \<or> (97 \<le> p \<and> p \<le> 122 \<and> c + 32 = p)"

definition match_literal :: "bool \<Rightarrow> pystr \<Rightarrow> pystr \<Rightarrow> bool" where
  \<comment> \<open>the literal \<open>pat\<close> matches at the head of \<open>s\<close>\<close>
  "match_literal ignorecase pat s \<longleftrightarrow>
     length pat \<le> length s \<and>
     list_all2 (if ignorecase then ieq else (=)) pat (take (length pat) s)"

function re_sub_fence :: "bool \<Rightarrow> pystr \<Rightarrow> pystr \<Rightarrow> pystr" where
  \<comment> \<open>\<open>re.sub(pat + r"\s*\n?", "", s)\<close> for a non-empty literal \<open>pat\<close>: scanning from the
      left, each occurrence of the literal is removed together with the whole run of
      whitespace after it (the greedy \<open>\s*\<close> takes the run, line feeds included, and
      leaves nothing for \<open>\n?\<close>); the scan goes on after the match\<close>
  "re_sub_fence ignorecase pat [] = []"
| "re_sub_fence ignorecase pat (c # cs) =
     (if pat \<noteq> [] \<and> match_literal ignorecase pat (c # cs)
      then re_sub_fence ignorecase pat (dropWhile isspace (drop (length pat) (c # cs)))
      else c # re_sub_fence ignorecase pat cs)"
  by pat_completeness auto
termination
proof (relation "measure (\<lambda>(i, p, s). length s)")
  show "wf (measure (\<lambda>(i, p, s). length s))" by simp
next
  fix ignorecase :: bool and pat :: pystr and c :: nat and cs :: pystr
  assume "pat \<noteq> [] \<and> match_literal ignorecase pat (c # cs)"
  then have "0 < length pat" by simp
  have "length (dropWhile isspace (drop (length pat) (c # cs)))
          \<le> length (drop (length pat) (c # cs))"
    by (rule length_dropWhile_le)
  also have "\<dots> < length (c # cs)" using \<open>0 < length pat\<close> by simp
  finally show "((ignorecase, pat, dropWhile isspace (drop (length pat) (c # cs))),
                 (ignorecase, pat, c # cs)) \<in> measure (\<lambda>(i, p, s). length s)"
    by simp
next
  fix ignorecase :: bool and pat :: pystr and c :: nat and cs :: pystr
  show "((ignorecase, pat, cs), (ignorecase, pat, c # cs)) \<in> measure (\<lambda>(i, p, s). length s)"
    by simp
qed

function collapse_newlines :: "pystr \<Rightarrow> pystr" where
  \<comment> \<open>\<open>re.sub(r"\n{3,}", "\n\n", s)\<close>: each maximal run of three or more line feeds
      becomes two line feeds\<close>
  "collapse_newlines [] = []"
| "collapse_newlines (c # cs) =
     (if c = 10 \<and> take 2 cs = [10, 10]
      then 10 # 10 # collapse_newlines (dropWhile (\<lambda>x. x = 10) cs)
      else c # collapse_newlines cs)"
  by pat_completeness auto
termination
proof (relation "measure length")
  show "wf (measure length)" by simp
next
  fix c :: nat and cs :: pystr
  have "length (dropWhile (\<lambda>x. x = 10) cs) \<le> length cs"
    by (rule length_dropWhile_le)
  then show "(dropWhile (\<lambda>x. x = 10) cs, c # cs) \<in> measure length" by simp
next
  fix c :: nat and cs :: pystr
  show "(cs, c # cs) \<in> measure length" by simp
qed

section \<open>GPTFormatterService: cleaning the model's answer\<close>

fun clean_loop :: "pystr list \<Rightarrow> bool \<Rightarrow> pystr list \<Rightarrow> pystr list" where
  \<comment> \<open>the \<open>for line in lines\<close> loop of \<open>_clean_gpt_artifacts\<close>, with its two variables
      \<open>started\<close> and \<open>clean_lines\<close>\<close>
  "clean_loop [] started clean_lines = clean_lines"
| "clean_loop (line # lines) started clean_lines =
     (let stripped = strip line in
      if \<not> started then
        (if stripped = [] then clean_loop lines started clean_lines
         else if startswith stripped (lit ''<'') \<or> started
              then clean_loop lines True (clean_lines @ [line])
              else clean_loop lines started clean_lines)
      else clean_loop lines started (clean_lines @ [line]))"

definition clean_gpt_artifacts :: "pystr \<Rightarrow> pystr" where
  \<comment> \<open>\<open>GPTFormatterService._clean_gpt_artifacts\<close>\<close>
  "clean_gpt_artifacts html =
     (let html = re_sub_fence True (lit ''```html'') html;
          html = re_sub_fence False (lit ''```'') html;
          lines = split_nl html;
          clean_lines = clean_loop lines False [];
          html = join_nl clean_lines;
          html = collapse_newlines html
      in strip html)"

section \<open>Enumerations, request and response schemas, the article row\<close>

datatype ArticleTypeEnum = VACANCY | ASSESSMENT | EMAIL | TEST_RESULTS | CUSTOM

fun article_type_value :: "ArticleTypeEnum \<Rightarrow> pystr" where
  "article_type_value VACANCY = lit ''vacancy''"
| "article_type_value ASSESSMENT = lit ''assessment''"
| "article_type_value EMAIL = lit ''email''"
| "article_type_value TEST_RESULTS = lit ''test_results''"
| "article_type_value CUSTOM = lit ''custom''"

datatype ContentModeEnum = FORMATTED | RAW

datatype FormatTypeEnum = HTML

fun format_type_value :: "FormatTypeEnum \<Rightarrow> pystr" where
  "format_type_value HTML = lit ''html''"

record HtmlGenerateSchema =
  article_type :: ArticleTypeEnum
  content_mode :: ContentModeEnum
  html_content :: "pystr option"
  raw_text :: "pystr option"
  formatting_rules :: "pystr option"
  title :: pystr
  lang :: pystr
  source_entity_id :: "int option"

text \<open>
  \<open>ArticleModel\<close>, a row of the table \<open>article.articles\<close>; its fields carry the prefix
  \<open>m_\<close> and those of \<open>ArticleResponseSchema\<close> the prefix \<open>r_\<close>, since the three
  classes share field names. Timestamps are integers.
\<close>

record ArticleModel =
  m_id :: int
  m_created_at :: int
  m_updated_at :: int
  m_title :: pystr
  m_article_type :: ArticleTypeEnum
  m_content_mode :: ContentModeEnum
  m_format_type :: FormatTypeEnum
  m_s3_key :: pystr
  m_public_url :: pystr
  m_source_entity_id :: "int option"
  m_lang :: pystr

record ArticleResponseSchema =
  r_id :: int
  r_public_url :: pystr
  r_article_type :: pystr
  r_format_type :: pystr
  r_created_at :: int

section \<open>Exceptions\<close>

text \<open>
  \<open>LibraryError m\<close> is any exception raised inside a collaborator's client library
  (openai, aiobotocore, SQLAlchemy), \<open>m\<close> being its \<open>str()\<close>; \<open>IntegrityError\<close> and
  \<open>DataError\<close> are the two exceptions of the database library for an insert the
  database refuses. The two application exceptions raised by the services carry the
  message given to their constructor and the exception that was being handled when they
  were raised (Python's \<open>__context__\<close>).
\<close>

datatype exc =
    LibraryError pystr
  | IndexError
  | TypeError
  | UnicodeEncodeError nat
  | IntegrityError
  | DataError
  | MultipleResultsFound
  | ValueError pystr
  | GPTFormattingError pystr "exc option"
  | S3UploadError pystr "exc option"
  | ArticleNotFoundError int

definition msg_error_prefix :: pystr where
  \<comment> \<open>the Russian word for "Error" and a space, as in \<open>ExternalServiceError\<close>\<close>
  "msg_error_prefix = [1054, 1096, 1080, 1073, 1082, 1072, 32]"

fun dec_digits :: "nat \<Rightarrow> pystr" where
  "dec_digits n = (if n < 10 then [48 + n] else dec_digits (n div 10) @ [48 + n mod 10])"

declare dec_digits.simps [simp del]

definition str_int :: "int \<Rightarrow> pystr" where
  \<comment> \<open>\<open>str(i)\<close> for an \<open>int\<close>, as an f-string formats it\<close>
  "str_int i = (if i < 0 then 45 # dec_digits (nat (- i)) else dec_digits (nat i))"

fun exc_message :: "exc \<Rightarrow> pystr option" where
  \<comment> \<open>\<open>AppException.message\<close>, for the exceptions that are application exceptions\<close>
  "exc_message (GPTFormattingError m c) = Some (msg_error_prefix @ lit ''OpenAI GPT: '' @ m)"
| "exc_message (S3UploadError m c) = Some (msg_error_prefix @ lit ''S3/MinIO: '' @ m)"
| "exc_message (ArticleNotFoundError i) =
     Some (lit ''Article'' @ [32, 1089, 32, 73, 68, 32] @ str_int i
           @ [32, 1085, 1077, 32, 1085, 1072, 1081, 1076, 1077, 1085])"
| "exc_message e = None"

fun exc_code :: "exc \<Rightarrow> pystr option" where
  \<comment> \<open>\<open>AppException.code\<close>\<close>
  "exc_code (GPTFormattingError m c) = Some (lit ''EXTERNAL_SERVICE_ERROR'')"
| "exc_code (S3UploadError m c) = Some (lit ''EXTERNAL_SERVICE_ERROR'')"
| "exc_code (ArticleNotFoundError i) = Some (lit ''NOT_FOUND'')"
| "exc_code e = None"

fun exc_context :: "exc \<Rightarrow> exc option" where
  "exc_context (GPTFormattingError m c) = c"
| "exc_context (S3UploadError m c) = c"
| "exc_context e = None"

section \<open>HtmlGenerateSchema.validate_content_fields\<close>

definition falsy :: "pystr option \<Rightarrow> bool" where
  \<comment> \<open>\<open>not x\<close> for an \<open>Optional[str]\<close>: \<open>None\<close> and the empty string\<close>
  "falsy x \<longleftrightarrow> x = None \<or> x = Some []"

definition py_or :: "pystr option \<Rightarrow> pystr \<Rightarrow> pystr" where
  \<comment> \<open>\<open>x or d\<close> for an \<open>Optional[str]\<close>\<close>
  "py_or x d = (case x of None \<Rightarrow> d | Some s \<Rightarrow> if s = [] then d else s)"

definition msg_html_content_required :: pystr where
  "msg_html_content_required =
     lit ''html_content '' @ [1086, 1073, 1103, 1079, 1072, 1090, 1077, 1083, 1077, 1085, 32,
       1087, 1088, 1080, 32] @ lit ''content_mode='' @ [39] @ lit ''formatted'' @ [39]"

definition msg_raw_text_required :: pystr where
  "msg_raw_text_required =
     lit ''raw_text '' @ [1086, 1073, 1103, 1079, 1072, 1090, 1077, 1083, 1077, 1085, 32,
       1087, 1088, 1080, 32] @ lit ''content_mode='' @ [39] @ lit ''raw'' @ [39]"

definition validate_content_fields :: "HtmlGenerateSchema \<Rightarrow> exc + HtmlGenerateSchema" where
  "validate_content_fields self =
     (if content_mode self = FORMATTED then
        (if falsy (html_content self) then Inl (ValueError msg_html_content_required)
         else Inr self)
      else if content_mode self = RAW then
        (if falsy (raw_text self) then Inl (ValueError msg_raw_text_required)
         else Inr self)
      else Inr self)"

section \<open>Collaborators, configuration and the state they hold\<close>

record ChatCompletion =
  choices :: "pystr option list"  \<comment> \<open>\<open>choices[i].message.content\<close>\<close>

record s3_object =
  body :: pybytes
  content_type :: pystr

text \<open>
  What a request cannot control: the settings, the compiled template \<open>base.html\<close> (not
  part of the sources at hand, so a parameter: title, body, language to the rendered
  page), the answer of each remote call, the 16 random bytes behind \<open>uuid.uuid4()\<close> and
  the clock, which an insert reads twice, once for each timestamp default.
\<close>

record env =
  S3_PUBLIC_URL :: pystr
  S3_ENDPOINT :: pystr
  S3_BUCKET_NAME :: pystr
  OPENAI_MODEL :: pystr
  base_html :: "pystr \<Rightarrow> pystr option \<Rightarrow> pystr \<Rightarrow> pystr"
  chat_completions_create :: "pystr \<Rightarrow> pystr \<Rightarrow> pystr option \<Rightarrow> pystr + ChatCompletion"
  put_object :: "pystr \<Rightarrow> pybytes \<Rightarrow> pystr \<Rightarrow> pystr option"
  delete_object :: "pystr \<Rightarrow> pystr option"
  flush_error :: "pystr option"
  urandom16 :: "128 word"
  utcnow :: int
  utcnow_again :: int

datatype call =
    ChatCompletionsCreate pystr pystr "pystr option"
  | PutObject pystr pybytes pystr
  | DeleteObject pystr
  | DbInsert pystr

text \<open>
  The bucket, the table with its identifier sequence, and the log of the calls made to
  the collaborators (in order).
\<close>

record world =
  bucket :: "pystr \<rightharpoonup> s3_object"
  articles :: "ArticleModel list"
  id_seq :: int
  calls :: "call list"

definition log_call :: "call \<Rightarrow> world \<Rightarrow> world" where
  "log_call c w = w\<lparr>calls := calls w @ [c]\<rparr>"

definition calls_since :: "world \<Rightarrow> world \<Rightarrow> call list" where
  \<comment> \<open>the calls made between the state \<open>w\<close> and the later state \<open>w'\<close>\<close>
  "calls_since w w' = drop (length (calls w)) (calls w')"

section \<open>uuid.uuid4().hex and str.encode("utf-8")\<close>

definition uuid4 :: "128 word \<Rightarrow> 128 word" where
  \<comment> \<open>\<open>uuid.UUID(bytes=os.urandom(16), version=4).int\<close>: the variant and version bits
      are overwritten, the other 122 bits are the random ones\<close>
  "uuid4 rnd =
     (let i = and rnd (not (push_bit 48 0xc000));
          i = or i (push_bit 48 0x8000);
          i = and i (not (push_bit 64 0xf000));
          i = or i (push_bit 76 4)
      in i)"

definition hexdigit :: "nat \<Rightarrow> nat" where
  "hexdigit d = (if d < 10 then 48 + d else 87 + d)"

fun hex_digits :: "nat \<Rightarrow> nat \<Rightarrow> pystr" where
  \<comment> \<open>the \<open>k\<close> lowest hexadecimal digits of \<open>n\<close>, most significant first\<close>
  "hex_digits 0 n = []"
| "hex_digits (Suc k) n = hex_digits k (n div 16) @ [hexdigit (n mod 16)]"

definition uuid_hex :: "128 word \<Rightarrow> pystr" where
  \<comment> \<open>\<open>UUID.hex\<close>, that is \<open>'%032x' % self.int\<close>\<close>
  "uuid_hex u = hex_digits 32 (unat u)"

definition utf8_char :: "nat \<Rightarrow> pybytes" where
  "utf8_char c =
     (if c < 0x80 then [word_of_nat c]
      else if c < 0x800 then
        [word_of_nat (0xC0 + c div 64), word_of_nat (0x80 + c mod 64)]
      else if c < 0x10000 then
        [word_of_nat (0xE0 + c div 4096), word_of_nat (0x80 + (c div 64) mod 64),
         word_of_nat (0x80 + c mod 64)]
      else
        [word_of_nat (0xF0 + c div 262144), word_of_nat (0x80 + (c div 4096) mod 64),
         word_of_nat (0x80 + (c div 64) mod 64), word_of_nat (0x80 + c mod 64)])"

fun encode_from :: "nat \<Rightarrow> pystr \<Rightarrow> exc + pybytes" where
  "encode_from i [] = Inr []"
| "encode_from i (c # cs) =
     (if 0xD800 \<le> c \<and> c \<le> 0xDFFF then Inl (UnicodeEncodeError i)
      else (case encode_from (Suc i) cs of
              Inl e \<Rightarrow> Inl e
            | Inr bs \<Rightarrow> Inr (utf8_char c @ bs)))"

definition encode_utf8 :: "pystr \<Rightarrow> exc + pybytes" where
  \<comment> \<open>\<open>s.encode("utf-8")\<close>: a lone surrogate raises \<open>UnicodeEncodeError\<close> at its
      position\<close>
  "encode_utf8 s = encode_from 0 s"

section \<open>GPTFormatterService.format_text\<close>

definition DEFAULT_SYSTEM_PROMPT :: pystr where
  "DEFAULT_SYSTEM_PROMPT = 
     [1058, 1099, 32, 8212, 32, 1089, 1087, 1077, 1094, 1080, 1072, 1083, 1080, 1089, 1090,
       32, 1087, 1086, 32, 1074, 1105, 1088, 1089, 1090, 1082, 1077, 32, 72, 84, 77,
       76, 46, 10, 1055, 1088, 1077, 1086, 1073, 1088, 1072, 1079, 1091, 1081, 32,
       1087, 1086, 1083, 1091, 1095, 1077, 1085, 1085, 1099, 1081, 32, 1090, 1077,
       1082, 1089, 1090, 32, 1074, 32, 1095, 1080, 1089, 1090, 1099, 1081, 44, 32,
       1089, 1077, 1084, 1072, 1085, 1090, 1080, 1095, 1077, 1089, 1082, 1080, 1081,
       32, 72, 84, 77, 76, 46, 10, 10, 1055, 1088, 1072, 1074, 1080, 1083, 1072, 58,
       10, 45, 32, 1048, 1089, 1087, 1086, 1083, 1100, 1079, 1091, 1081, 32, 1090,
       1077, 1075, 1080, 58, 32, 60, 104, 51, 62, 44, 32, 60, 104, 52, 62, 44, 32, 60,
       112, 62, 44, 32, 60, 117, 108, 62, 44, 32, 60, 111, 108, 62, 44, 32, 60, 108,
       105, 62, 44, 32, 60, 115, 116, 114, 111, 110, 103, 62, 44, 32, 60, 101, 109, 62,
       44, 32, 60, 98, 108, 111, 99, 107, 113, 117, 111, 116, 101, 62, 44, 32, 60, 104,
       114, 62, 10, 45, 32, 1053, 1045, 32, 1076, 1086, 1073, 1072, 1074, 1083, 1103,
       1081, 32, 60, 33, 68, 79, 67, 84, 89, 80, 69, 62, 44, 32, 60, 104, 116, 109,
       108, 62, 44, 32, 60, 104, 101, 97, 100, 62, 44, 32, 60, 98, 111, 100, 121, 62,
       32, 8212, 32, 1090, 1086, 1083, 1100, 1082, 1086, 32, 1089, 1086, 1076, 1077,
       1088, 1078, 1080, 1084, 1086, 1077, 32, 1076, 1083, 1103, 32, 60, 98, 111, 100,
       121, 62, 10, 45, 32, 1053, 1045, 32, 1080, 1089, 1087, 1086, 1083, 1100, 1079,
       1091, 1081, 32, 105, 110, 108, 105, 110, 101, 32, 1089, 1090, 1080, 1083, 1080,
       32, 1080, 32, 1072, 1090, 1088, 1080, 1073, 1091, 1090, 1099, 32, 99, 108, 97,
       115, 115, 10, 45, 32, 1057, 1090, 1088, 1091, 1082, 1090, 1091, 1088, 1080,
       1088, 1091, 1081, 32, 1090, 1077, 1082, 1089, 1090, 32, 1083, 1086, 1075, 1080,
       1095, 1077, 1089, 1082, 1080, 58, 32, 1079, 1072, 1075, 1086, 1083, 1086, 1074,
       1082, 1080, 44, 32, 1087, 1072, 1088, 1072, 1075, 1088, 1072, 1092, 1099, 44,
       32, 1089, 1087, 1080, 1089, 1082, 1080, 10, 45, 32, 1057, 1086, 1093, 1088,
       1072, 1085, 1080, 32, 1074, 1077, 1089, 1100, 32, 1089, 1084, 1099, 1089, 1083,
       32, 1080, 32, 1089, 1086, 1076, 1077, 1088, 1078, 1072, 1085, 1080, 1077, 32,
       1080, 1089, 1093, 1086, 1076, 1085, 1086, 1075, 1086, 32, 1090, 1077, 1082,
       1089, 1090, 1072, 10, 45, 32, 1042, 1077, 1088, 1085, 1080, 32, 1058, 1054,
       1051, 1068, 1050, 1054, 32, 72, 84, 77, 76, 32, 1073, 1077, 1079, 32, 1087,
       1086, 1103, 1089, 1085, 1077, 1085, 1080, 1081, 32, 1080, 32, 109, 97, 114, 107,
       100, 111, 119, 110, 45, 1073, 1083, 1086, 1082, 1086, 1074]"

definition msg_answer_in_english :: pystr where
  "msg_answer_in_english = 
     [10, 10, 1054, 1090, 1074, 1077, 1095, 1072, 1081, 32, 1085, 1072, 32, 1072, 1085,
       1075, 1083, 1080, 1081, 1089, 1082, 1086, 1084, 32, 1103, 1079, 1099, 1082,
       1077, 46]"

definition msg_gpt_empty :: pystr where
  "msg_gpt_empty = 
     [71, 80, 84, 32, 1074, 1077, 1088, 1085, 1091, 1083, 32, 1087, 1091, 1089, 1090, 1086,
       1081, 32, 1082, 1086, 1085, 1090, 1077, 1085, 1090]"

definition msg_gpt_failed :: pystr where
  "msg_gpt_failed = 
     [1053, 1077, 32, 1091, 1076, 1072, 1083, 1086, 1089, 1100, 32, 1086, 1090, 1092, 1086,
       1088, 1084, 1072, 1090, 1080, 1088, 1086, 1074, 1072, 1090, 1100, 32, 1090,
       1077, 1082, 1089, 1090, 58, 32]"

definition format_text ::
  "env \<Rightarrow> pystr option \<Rightarrow> pystr option \<Rightarrow> pystr \<Rightarrow> world \<Rightarrow> (exc + pystr) \<times> world" where
  \<comment> \<open>\<open>raw_text'\<close> is what the caller passes, \<open>data.raw_text\<close>, an \<open>Optional[str]\<close>; every
      exception raised inside the \<open>try\<close> other than \<open>GPTFormattingError\<close> is wrapped\<close>
  "format_text env raw_text' formatting_rules' lang' w =
     (let system_prompt = py_or formatting_rules' DEFAULT_SYSTEM_PROMPT;
          system_prompt = (if lang' = lit ''en'' then system_prompt @ msg_answer_in_english
                           else system_prompt);
          w1 = log_call (ChatCompletionsCreate (OPENAI_MODEL env) system_prompt raw_text') w
      in case chat_completions_create env (OPENAI_MODEL env) system_prompt raw_text' of
           Inl m \<Rightarrow>
             (Inl (GPTFormattingError (msg_gpt_failed @ m) (Some (LibraryError m))), w1)
         | Inr response \<Rightarrow>
             (case choices response of
                [] \<Rightarrow>
                  (Inl (GPTFormattingError (msg_gpt_failed @ lit ''list index out of range'')
                          (Some IndexError)), w1)
              | content # _ \<Rightarrow>
                  (let html_content = py_or content [];
                       html_content = clean_gpt_artifacts html_content
                   in if strip html_content = [] then
                        (Inl (GPTFormattingError msg_gpt_empty None), w1)
                      else if raw_text' = None then
                        (Inl (GPTFormattingError
                                (msg_gpt_failed
                                 @ lit ''object of type ''
                                 @ [39] @ lit ''NoneType'' @ [39] @ lit '' has no len()'')
                                (Some TypeError)), w1)
                      else (Inr html_content, w1))))"

definition system_prompt_of :: "pystr option \<Rightarrow> pystr \<Rightarrow> pystr" where
  \<comment> \<open>the system prompt that \<open>format_text\<close> sends, as its first lines compute it\<close>
  "system_prompt_of formatting_rules' lang' =
     (let system_prompt = py_or formatting_rules' DEFAULT_SYSTEM_PROMPT
      in if lang' = lit ''en'' then system_prompt @ msg_answer_in_english else system_prompt)"

section \<open>S3StorageService\<close>

definition get_public_url :: "env \<Rightarrow> pystr \<Rightarrow> pystr" where
  "get_public_url env s3_key =
     (if S3_PUBLIC_URL env \<noteq> [] then
        (let base = rstrip_chars (S3_PUBLIC_URL env) (lit ''/'') in base @ lit ''/'' @ s3_key)
      else
        (let endpoint = rstrip_chars (S3_ENDPOINT env) (lit ''/'')
         in endpoint @ lit ''/'' @ S3_BUCKET_NAME env @ lit ''/'' @ s3_key))"

definition msg_upload_failed :: pystr where
  "msg_upload_failed = 
     [1053, 1077, 32, 1091, 1076, 1072, 1083, 1086, 1089, 1100, 32, 1079, 1072, 1075, 1088,
       1091, 1079, 1080, 1090, 1100, 32, 1092, 1072, 1081, 1083, 32, 39]"

definition upload_file ::
  "env \<Rightarrow> pystr \<Rightarrow> pybytes \<Rightarrow> pystr \<Rightarrow> world \<Rightarrow> (exc + pystr) \<times> world" where
  \<comment> \<open>a failed \<open>put_object\<close> leaves the bucket as it was\<close>
  "upload_file env s3_key content ctype w =
     (let w1 = log_call (PutObject s3_key content ctype) w
      in case put_object env s3_key content ctype of
           Some m \<Rightarrow>
             (Inl (S3UploadError (msg_upload_failed @ s3_key @ [39] @ lit '': '' @ m)
                     (Some (LibraryError m))), w1)
         | None \<Rightarrow>
             (let w2 = w1\<lparr>bucket := (bucket w1)(s3_key \<mapsto> \<lparr>body = content, content_type = ctype\<rparr>)\<rparr>;
                  public_url = get_public_url env s3_key
              in (Inr public_url, w2)))"

definition delete_file :: "env \<Rightarrow> pystr \<Rightarrow> world \<Rightarrow> bool \<times> world" where
  "delete_file env s3_key w =
     (let w1 = log_call (DeleteObject s3_key) w
      in case delete_object env s3_key of
           Some m \<Rightarrow> (False, w1)
         | None \<Rightarrow> (True, w1\<lparr>bucket := (bucket w1)(s3_key := None)\<rparr>))"

section \<open>BaseRepository on the articles table\<close>

definition get_by_id :: "int \<Rightarrow> world \<Rightarrow> exc + ArticleModel option" where
  \<comment> \<open>\<open>select(...).where(id == i)\<close> and \<open>scalar_one_or_none()\<close>\<close>
  "get_by_id i w =
     (case filter (\<lambda>r. m_id r = i) (articles w) of
        [] \<Rightarrow> Inr None
      | [r] \<Rightarrow> Inr (Some r)
      | _ \<Rightarrow> Inl MultipleResultsFound)"

definition unsendable :: "pystr \<Rightarrow> bool" where
  \<comment> \<open>text that cannot be sent as a PostgreSQL text value: it holds the code point 0 or
      a surrogate\<close>
  "unsendable s \<longleftrightarrow> list_ex (\<lambda>c. c = 0 \<or> (0xD800 \<le> c \<and> c \<le> 0xDFFF)) s"

definition data_error :: "ArticleModel \<Rightarrow> bool" where
  \<comment> \<open>a value that the column types of \<open>ArticleModel\<close> refuse: unsendable text in a
      \<open>String\<close> column, more than 5 characters in \<open>lang\<close> (\<open>String(5)\<close>) unless the
      excess is spaces only, a \<open>source_entity_id\<close> outside the 32-bit \<open>Integer\<close>\<close>
  "data_error instance \<longleftrightarrow>
     unsendable (m_title instance) \<or> unsendable (m_s3_key instance) \<or>
     unsendable (m_public_url instance) \<or> unsendable (m_lang instance) \<or>
     list_ex (\<lambda>c. c \<noteq> 32) (drop 5 (m_lang instance)) \<or>
     (case m_source_entity_id instance of
        None \<Rightarrow> False
      | Some i \<Rightarrow> i < - 2147483648 \<or> 2147483647 < i)"

definition insert_error :: "env \<Rightarrow> ArticleModel \<Rightarrow> ArticleModel list \<Rightarrow> int \<Rightarrow> exc option" where
  \<comment> \<open>the exception with which the flush of the \<open>INSERT\<close> fails, if it fails, for the
      rows in the table and the next identifier of the sequence: the database cannot be
      reached; a value is refused (also an identifier beyond the 32-bit \<open>Integer\<close>); the
      primary key or the unique \<open>s3_key\<close> is already in the table\<close>
  "insert_error env instance rows next_id =
     (case flush_error env of
        Some m \<Rightarrow> Some (LibraryError m)
      | None \<Rightarrow>
          if data_error instance \<or> 2147483647 < next_id then Some DataError
          else if m_s3_key instance \<in> set (map m_s3_key rows) \<or> next_id \<in> set (map m_id rows)
          then Some IntegrityError
          else None)"

definition repo_create :: "env \<Rightarrow> ArticleModel \<Rightarrow> world \<Rightarrow> (exc + ArticleModel) \<times> world" where
  \<comment> \<open>\<open>BaseRepository.create\<close>: \<open>instance\<close> holds the keyword arguments; the flush inserts
      the row with the next identifier of the sequence, the two timestamp defaults (two
      readings of the clock) and \<open>lang\<close> cut to its 5 characters. A constraint violation
      is found by the database after it has taken the identifier from the sequence, the
      other failures before. No exception is caught here.\<close>
  "repo_create env instance w =
     (let w1 = log_call (DbInsert (m_s3_key instance)) w
      in case insert_error env instance (articles w1) (id_seq w1) of
           Some e \<Rightarrow>
             (Inl e, if e = IntegrityError then w1\<lparr>id_seq := id_seq w1 + 1\<rparr> else w1)
         | None \<Rightarrow>
             (let row = instance\<lparr>m_id := id_seq w1, m_created_at := utcnow env,
                                  m_updated_at := utcnow_again env,
                                  m_lang := take 5 (m_lang instance)\<rparr>
              in (Inr row, w1\<lparr>articles := articles w1 @ [row], id_seq := id_seq w1 + 1\<rparr>)))"

section \<open>ArticleService\<close>

definition wrap_in_template :: "env \<Rightarrow> pystr \<Rightarrow> pystr option \<Rightarrow> pystr \<Rightarrow> pystr" where
  \<comment> \<open>\<open>jinja_env.get_template("base.html").render(title=..., body_content=..., lang=...)\<close>\<close>
  "wrap_in_template env title' body_content lang' = base_html env title' body_content lang'"

definition make_s3_key :: "ArticleTypeEnum \<Rightarrow> pystr \<Rightarrow> pystr" where
  \<comment> \<open>\<open>f"html/{data.article_type.value}/{file_id}.html"\<close>\<close>
  "make_s3_key t file_id = lit ''html/'' @ article_type_value t @ lit ''/'' @ file_id @ lit ''.html''"

definition generate_html ::
  "env \<Rightarrow> HtmlGenerateSchema \<Rightarrow> world \<Rightarrow> (exc + ArticleResponseSchema) \<times> world" where
  "generate_html env data w =
     (case (if content_mode data = FORMATTED then (Inr (html_content data), w)
            else (case format_text env (raw_text data) (formatting_rules data) (lang data) w of
                    (Inl e, w1) \<Rightarrow> (Inl e, w1)
                  | (Inr html, w1) \<Rightarrow> (Inr (Some html), w1))) of
        (Inl e, w1) \<Rightarrow> (Inl e, w1)
      | (Inr html_body, w1) \<Rightarrow>
          (let full_html = wrap_in_template env (title data) html_body (lang data);
               file_id = uuid_hex (uuid4 (urandom16 env));
               s3_key = make_s3_key (article_type data) file_id
           in case encode_utf8 full_html of
                Inl e \<Rightarrow> (Inl e, w1)
              | Inr html_bytes \<Rightarrow>
                  (case upload_file env s3_key html_bytes (lit ''text/html; charset=utf-8'') w1 of
                     (Inl e, w2) \<Rightarrow> (Inl e, w2)
                   | (Inr public_url, w2) \<Rightarrow>
                       (case repo_create env
                               \<lparr>m_id = 0, m_created_at = 0, m_updated_at = 0,
                                m_title = title data,
                                m_article_type = article_type data,
                                m_content_mode = content_mode data,
                                m_format_type = HTML,
                                m_s3_key = s3_key,
                                m_public_url = public_url,
                                m_source_entity_id = source_entity_id data,
                                m_lang = lang data\<rparr> w2 of
                          (Inl e, w3) \<Rightarrow> (Inl e, w3)
                        | (Inr article, w3) \<Rightarrow>
                            (Inr \<lparr>r_id = m_id article,
                                  r_public_url = m_public_url article,
                                  r_article_type = article_type_value (m_article_type article),
                                  r_format_type = format_type_value (m_format_type article),
                                  r_created_at = m_created_at article\<rparr>, w3)))))"

definition get_article :: "int \<Rightarrow> world \<Rightarrow> exc + ArticleModel option" where
  "get_article article_id w = get_by_id article_id w"

section \<open>The two endpoints\<close>

definition generate_html_article ::
  "env \<Rightarrow> HtmlGenerateSchema \<Rightarrow> world \<Rightarrow> (exc + ArticleResponseSchema) \<times> world" where
  \<comment> \<open>the request body is validated into \<open>HtmlGenerateSchema\<close> before the handler runs\<close>
  "generate_html_article env body' w =
     (case validate_content_fields body' of
        Inl e \<Rightarrow> (Inl e, w)
      | Inr data \<Rightarrow> generate_html env data w)"

definition get_html_article :: "int \<Rightarrow> world \<Rightarrow> exc + ArticleResponseSchema" where
  "get_html_article article_id w =
     (case get_article article_id w of
        Inl e \<Rightarrow> Inl e
      | Inr None \<Rightarrow> Inl (ArticleNotFoundError article_id)
      | Inr (Some article) \<Rightarrow>
          Inr \<lparr>r_id = m_id article,
               r_public_url = m_public_url article,
               r_article_type = article_type_value (m_article_type article),
               r_format_type = format_type_value (m_format_type article),
               r_created_at = m_created_at article\<rparr>)"

section \<open>Reading the log of calls\<close>

fun is_chat_call :: "call \<Rightarrow> bool" where
  "is_chat_call (ChatCompletionsCreate m s u) = True"
| "is_chat_call c = False"

fun is_put_object :: "call \<Rightarrow> bool" where
  "is_put_object (PutObject k b t) = True"
| "is_put_object c = False"

fun is_delete_object :: "call \<Rightarrow> bool" where
  "is_delete_object (DeleteObject k) = True"
| "is_delete_object c = False"

fun is_db_insert :: "call \<Rightarrow> bool" where
  "is_db_insert (DbInsert k) = True"
| "is_db_insert c = False"

abbreviation html_ctype :: pystr where
  "html_ctype \<equiv> lit ''text/html; charset=utf-8''"

section \<open>Concrete inputs\<close>

definition example_base_html :: "pystr \<Rightarrow> pystr option \<Rightarrow> pystr \<Rightarrow> pystr" where
  \<comment> \<open>Modelled from the spec: \<open>templates/base.html\<close> is not among the sources at hand; this
      stand-in has the doctype, \<open>html lang\<close>, \<open>head\<close> with \<open>title\<close>, and \<open>body\<close> the
      specification names. It is used as a concrete input only.\<close>
  "example_base_html title' body_content lang' =
     lit ''<!DOCTYPE html><html lang='' @ [34] @ lang' @ [34] @ lit ''><head><title>''
     @ title' @ lit ''</title></head><body>''
     @ (case body_content of None \<Rightarrow> lit ''None'' | Some b \<Rightarrow> b)
     @ lit ''</body></html>''"

definition example_env :: env where
  "example_env =
     \<lparr>S3_PUBLIC_URL = lit ''https://cdn.example.com/'',
      S3_ENDPOINT = lit ''http://minio:9000'',
      S3_BUCKET_NAME = lit ''hr-articles'',
      OPENAI_MODEL = lit ''gpt-4o-mini'',
      base_html = example_base_html,
      chat_completions_create = (\<lambda>m s u. Inr \<lparr>choices = [Some (lit ''<p>hi</p>'')]\<rparr>),
      put_object = (\<lambda>k b t. None),
      delete_object = (\<lambda>k. None),
      flush_error = None,
      urandom16 = 0,
      utcnow = 1700000000,
      utcnow_again = 1700000001\<rparr>"

definition example_request :: HtmlGenerateSchema where
  "example_request =
     \<lparr>article_type = VACANCY, content_mode = FORMATTED,
      html_content = Some (lit ''<p>Job</p>''), raw_text = None, formatting_rules = None,
      title = lit ''Backend Engineer'', lang = lit ''ru'', source_entity_id = None\<rparr>"

definition example_key :: pystr where
  \<comment> \<open>the key made for a vacancy when the 16 random bytes are all zero\<close>
  "example_key = make_s3_key VACANCY (uuid_hex (uuid4 0))"

definition example_page :: pybytes where
  "example_page =
     [60, 33, 68, 79, 67, 84, 89, 80, 69, 32, 104, 116, 109, 108, 62, 60, 104, 116, 109,
       108, 32, 108, 97, 110, 103, 61, 34, 114, 117, 34, 62, 60, 104, 101, 97, 100, 62,
       60, 116, 105, 116, 108, 101, 62, 66, 97, 99, 107, 101, 110, 100, 32, 69, 110, 103,
       105, 110, 101, 101, 114, 60, 47, 116, 105, 116, 108, 101, 62, 60, 47, 104, 101,
       97, 100, 62, 60, 98, 111, 100, 121, 62, 60, 112, 62, 74, 111, 98, 60, 47, 112, 62,
       60, 47, 98, 111, 100, 121, 62, 60, 47, 104, 116, 109, 108, 62]"

definition empty_world :: world where
  "empty_world = \<lparr>bucket = Map.empty, articles = [], id_seq = 1, calls = []\<rparr>"

definition example_url :: pystr where
  "example_url = lit ''https://cdn.example.com/'' @ example_key"

definition example_row :: ArticleModel where
  "example_row =
     \<lparr>m_id = 1, m_created_at = 1700000000, m_updated_at = 1700000001,
      m_title = lit ''Backend Engineer'', m_article_type = VACANCY,
      m_content_mode = FORMATTED, m_format_type = HTML, m_s3_key = example_key,
      m_public_url = example_url, m_source_entity_id = None, m_lang = lit ''ru''\<rparr>"

definition example_response :: ArticleResponseSchema where
  "example_response =
     \<lparr>r_id = 1, r_public_url = example_url, r_article_type = lit ''vacancy'',
      r_format_type = lit ''html'', r_created_at = 1700000000\<rparr>"

definition example_stored :: "pystr \<rightharpoonup> s3_object" where
  "example_stored = [example_key \<mapsto> \<lparr>body = example_page, content_type = html_ctype\<rparr>]"

definition example_env_db_down :: env where
  "example_env_db_down = example_env\<lparr>flush_error := Some (lit ''connection refused'')\<rparr>"

definition example_world_done :: world where
  "example_world_done =
     \<lparr>bucket = example_stored, articles = [example_row], id_seq = 2,
      calls = [PutObject example_key example_page html_ctype, DbInsert example_key]\<rparr>"

definition example_world_orphan :: world where
  "example_world_orphan =
     \<lparr>bucket = example_stored, articles = [], id_seq = 1,
      calls = [PutObject example_key example_page html_ctype, DbInsert example_key]\<rparr>"

definition populated :: "pystr option \<Rightarrow> bool" where
  \<comment> \<open>Modelled from the spec: a field is populated when it is present and not empty.\<close>
  "populated x \<longleftrightarrow> x \<noteq> None \<and> x \<noteq> Some []"

definition spec_valid :: "HtmlGenerateSchema \<Rightarrow> bool" where
  \<comment> \<open>Modelled from the spec: exactly one of \<open>htmlContent\<close>/\<open>rawText\<close> is populated, as
      determined by \<open>contentMode\<close>: \<open>htmlContent\<close> populated iff the mode is formatted,
      \<open>rawText\<close> populated iff the mode is raw.\<close>
  "spec_valid r \<longleftrightarrow>
     (populated (html_content r) \<longleftrightarrow> content_mode r = FORMATTED) \<and>
     (populated (raw_text r) \<longleftrightarrow> content_mode r = RAW)"

definition example_request_both :: HtmlGenerateSchema where
  "example_request_both = example_request\<lparr>raw_text := Some (lit ''We are hiring'')\<rparr>"

definition example_request_empty :: HtmlGenerateSchema where
  "example_request_empty = example_request\<lparr>html_content := Some []\<rparr>"

definition required_field :: "HtmlGenerateSchema \<Rightarrow> pystr option" where
  \<comment> \<open>the one field that \<open>validate_content_fields\<close> reads for the mode of the request\<close>
  "required_field r = (case content_mode r of FORMATTED \<Rightarrow> html_content r | RAW \<Rightarrow> raw_text r)"

definition msg_required :: "ContentModeEnum \<Rightarrow> pystr" where
  "msg_required m = (case m of FORMATTED \<Rightarrow> msg_html_content_required | RAW \<Rightarrow> msg_raw_text_required)"

definition example_raw_request :: HtmlGenerateSchema where
  "example_raw_request =
     example_request\<lparr>content_mode := RAW, html_content := None,
                      raw_text := Some (lit ''We are hiring'')\<rparr>"

definition example_env_chat_down :: env where
  "example_env_chat_down =
     example_env\<lparr>chat_completions_create := \<lambda>m s u. Inl (lit ''rate limited'')\<rparr>"

definition example_env_upload_down :: env where
  "example_env_upload_down = example_env\<lparr>put_object := \<lambda>k b t. Some (lit ''timed out'')\<rparr>"

definition example_chat_call :: call where
  "example_chat_call =
     ChatCompletionsCreate (lit ''gpt-4o-mini'') DEFAULT_SYSTEM_PROMPT (Some (lit ''We are hiring''))"

definition example_env_no_choice :: env where
  "example_env_no_choice =
     example_env\<lparr>chat_completions_create := \<lambda>m s u. Inr \<lparr>choices = []\<rparr>\<rparr>"

definition example_env_chatty :: env where
  "example_env_chatty =
     example_env\<lparr>chat_completions_create :=
                    \<lambda>m s u. Inr \<lparr>choices = [Some (lit ''Hello world'')]\<rparr>\<rparr>"






definition article_kwargs :: "env \<Rightarrow> HtmlGenerateSchema \<Rightarrow> ArticleModel" where
  \<comment> \<open>the keyword arguments with which \<open>generate_html\<close> calls \<open>create\<close>\<close>
  "article_kwargs env data =
     (let s3_key = make_s3_key (article_type data) (uuid_hex (uuid4 (urandom16 env)))
      in \<lparr>m_id = 0, m_created_at = 0, m_updated_at = 0,
          m_title = title data,
          m_article_type = article_type data,
          m_content_mode = content_mode data,
          m_format_type = HTML,
          m_s3_key = s3_key,
          m_public_url = get_public_url env s3_key,
          m_source_entity_id = source_entity_id data,
          m_lang = lang data\<rparr>)"

definition example_world_again :: world where
  "example_world_again =
     \<lparr>bucket = example_stored, articles = [example_row], id_seq = 3,
      calls = [PutObject example_key example_page html_ctype, DbInsert example_key,
               PutObject example_key example_page html_ctype, DbInsert example_key]\<rparr>"

definition example_request_big_id :: HtmlGenerateSchema where
  "example_request_big_id = example_request\<lparr>source_entity_id := Some 4294967296\<rparr>"

definition example_env_random :: env where
  "example_env_random =
     example_env_upload_down\<lparr>urandom16 := 0x0123456789abcdef0123456789abcdef\<rparr>"

definition example_key_random :: pystr where
  "example_key_random = lit ''html/vacancy/0123456789ab4def8123456789abcdef.html''"

definition is_cont :: "nat \<Rightarrow> bool" where
  \<comment> \<open>a continuation byte of UTF-8\<close>
  "is_cont b \<longleftrightarrow> 0x80 \<le> b \<and> b < 0xC0"

fun decode_from :: "nat list \<Rightarrow> pystr option" where
  \<comment> \<open>the strict UTF-8 decoder on the byte values: shortest form only, no surrogate,
      nothing above U+10FFFF; \<open>None\<close> stands for \<open>UnicodeDecodeError\<close>\<close>
  "decode_from [] = Some []"
| "decode_from (b0 # bs) =
     (if b0 < 0x80 then map_option ((#) b0) (decode_from bs)
      else if b0 < 0xC0 then None
      else if b0 < 0xE0 then
        (case bs of
           b1 # r \<Rightarrow>
             (let c = (b0 - 0xC0) * 64 + (b1 - 0x80)
              in if is_cont b1 \<and> 0x80 \<le> c then map_option ((#) c) (decode_from r)
                 else None)
         | _ \<Rightarrow> None)
      else if b0 < 0xF0 then
        (case bs of
           b1 # b2 # r \<Rightarrow>
             (let c = (b0 - 0xE0) * 4096 + (b1 - 0x80) * 64 + (b2 - 0x80)
              in if is_cont b1 \<and> is_cont b2 \<and> 0x800 \<le> c \<and> \<not> (0xD800 \<le> c \<and> c \<le> 0xDFFF)
                 then map_option ((#) c) (decode_from r)
                 else None)
         | _ \<Rightarrow> None)
      else if b0 < 0xF8 then
        (case bs of
           b1 # b2 # b3 # r \<Rightarrow>
             (let c = (b0 - 0xF0) * 262144 + (b1 - 0x80) * 4096 + (b2 - 0x80) * 64
                      + (b3 - 0x80)
              in if is_cont b1 \<and> is_cont b2 \<and> is_cont b3 \<and> 0x10000 \<le> c \<and> c \<le> 0x10FFFF
                 then map_option ((#) c) (decode_from r)
                 else None)
         | _ \<Rightarrow> None)
      else None)"

definition decode_utf8 :: "pybytes \<Rightarrow> pystr option" where
  \<comment> \<open>\<open>b.decode("utf-8")\<close>\<close>
  "decode_utf8 bs = decode_from (map unat bs)"

definition valid_str :: "pystr \<Rightarrow> bool" where
  \<comment> \<open>the code points of a Python \<open>str\<close> end at U+10FFFF\<close>
  "valid_str s \<longleftrightarrow> list_all (\<lambda>c. c \<le> 0x10FFFF) s"

definition spec_base_html :: "pystr \<Rightarrow> pystr \<Rightarrow> pystr option \<Rightarrow> pystr \<Rightarrow> pystr" where
  \<comment> \<open>Modelled from the spec: \<open>templates/base.html\<close> is not among the sources. The spec's
      template wrapper produces a complete HTML document (doctype, \<open>html\<close> with the
      language, \<open>head\<close> with the title, \<open>body\<close> with the body) with embedded baseline
      styling, title and body inserted as they are; \<open>style\<close> is the rest of the head.
      A missing body is rendered the way Jinja renders \<open>None\<close>.\<close>
  "spec_base_html style title' body_content lang' =
     lit ''<!DOCTYPE html><html lang='' @ [34] @ lang' @ [34] @ lit ''><head><title>''
     @ title' @ lit ''</title>'' @ style @ lit ''</head><body>''
     @ (case body_content of None \<Rightarrow> lit ''None'' | Some b \<Rightarrow> b)
     @ lit ''</body></html>''"

definition is_surrogate :: "nat \<Rightarrow> bool" where
  "is_surrogate c \<longleftrightarrow> 0xD800 \<le> c \<and> c \<le> 0xDFFF"

section \<open>What each collaborator call leaves behind\<close>

lemma calls_since_log_call: "calls_since w (log_call c w) = [c]"
  by (simp add: calls_since_def log_call_def)

lemma format_text_world:
  "format_text env rt fr lg w = (r, w') \<Longrightarrow>
     \<exists>sp. w' = log_call (ChatCompletionsCreate (OPENAI_MODEL env) sp rt) w"
  by (auto simp: format_text_def Let_def split: sum.splits list.splits if_splits)

lemma upload_file_Inl:
  "upload_file env k b ct w = (Inl e, w') \<Longrightarrow>
     \<exists>m. put_object env k b ct = Some m \<and> w' = log_call (PutObject k b ct) w \<and>
         e = S3UploadError (msg_upload_failed @ k @ [39] @ lit '': '' @ m)
               (Some (LibraryError m))"
  by (auto simp: upload_file_def Let_def split: option.splits)

lemma upload_file_Inr:
  "upload_file env k b ct w = (Inr u, w') \<Longrightarrow>
     put_object env k b ct = None \<and> u = get_public_url env k \<and>
     w' = (log_call (PutObject k b ct) w)
            \<lparr>bucket := (bucket w)(k \<mapsto> \<lparr>body = b, content_type = ct\<rparr>)\<rparr>"
  by (auto simp: upload_file_def Let_def log_call_def split: option.splits)

lemma repo_create_Inl:
  "repo_create env inst w = (Inl e, w') \<Longrightarrow>
     insert_error env inst (articles w) (id_seq w) = Some e \<and>
     calls w' = calls w @ [DbInsert (m_s3_key inst)] \<and>
     articles w' = articles w \<and> bucket w' = bucket w \<and>
     id_seq w' = (if e = IntegrityError then id_seq w + 1 else id_seq w)"
  by (auto simp: repo_create_def Let_def log_call_def split: option.splits if_splits)

lemma repo_create_Inr:
  "repo_create env inst w = (Inr row, w') \<Longrightarrow>
     insert_error env inst (articles w) (id_seq w) = None \<and>
     m_s3_key inst \<notin> set (map m_s3_key (articles w)) \<and>
     id_seq w \<notin> set (map m_id (articles w)) \<and>
     row = inst\<lparr>m_id := id_seq w, m_created_at := utcnow env,
                m_updated_at := utcnow_again env, m_lang := take 5 (m_lang inst)\<rparr> \<and>
     w' = (log_call (DbInsert (m_s3_key inst)) w)
            \<lparr>articles := articles w @ [row], id_seq := id_seq w + 1\<rparr>"
  by (auto simp: repo_create_def insert_error_def Let_def log_call_def
           split: option.splits if_splits)

lemma example_page_encoded:
  "encode_utf8 (example_base_html (lit ''Backend Engineer'') (Some (lit ''<p>Job</p>''))
      (lit ''ru'')) = Inr example_page"
  by (simp add: encode_utf8_def utf8_char_def example_base_html_def example_page_def lit_def)

lemma hex_digits_numeral:
  "hex_digits (numeral k) n = hex_digits (pred_numeral k) (n div 16) @ [hexdigit (n mod 16)]"
  unfolding numeral_eq_Suc [of k] by simp

lemma hex_digits_one: "hex_digits 1 n = [hexdigit (n mod 16)]"
  unfolding One_nat_def by simp

lemma uuid4_zero: "uuid4 0 = 0x40008000000000000000"
  by (simp add: uuid4_def Let_def)

lemma uuid_hex_zero: "uuid_hex (uuid4 0) = lit ''00000000000040008000000000000000''"
  by (simp add: uuid_hex_def uuid4_zero hex_digits_numeral hex_digits_one hexdigit_def lit_def)

lemma example_key_literal:
  "example_key = lit ''html/vacancy/00000000000040008000000000000000.html''"
  by (simp add: example_key_def make_s3_key_def uuid_hex_zero lit_def)

lemma example_data_ok:
  "\<not> data_error
       \<lparr>m_id = i, m_created_at = c, m_updated_at = u, m_title = lit ''Backend Engineer'',
        m_article_type = t, m_content_mode = cm, m_format_type = f, m_s3_key = example_key,
        m_public_url = lit ''https://cdn.example.com/'' @ example_key,
        m_source_entity_id = None, m_lang = lit ''ru''\<rparr>"
  by (simp add: data_error_def unsendable_def example_key_literal lit_def)

lemma example_lang: "take 5 (lit ''ru'') = lit ''ru''"
  by (simp add: lit_def)

lemma example_key_made: "make_s3_key VACANCY (uuid_hex (uuid4 0)) = example_key"
  by (simp add: example_key_def)

lemma format_text_eq:
  "format_text env rt fr lg w =
     (case chat_completions_create env (OPENAI_MODEL env) (system_prompt_of fr lg) rt of
        Inl m \<Rightarrow> Inl (GPTFormattingError (msg_gpt_failed @ m) (Some (LibraryError m)))
      | Inr response \<Rightarrow>
          (case choices response of
             [] \<Rightarrow> Inl (GPTFormattingError (msg_gpt_failed @ lit ''list index out of range'')
                         (Some IndexError))
           | content # _ \<Rightarrow>
               if strip (clean_gpt_artifacts (py_or content [])) = []
               then Inl (GPTFormattingError msg_gpt_empty None)
               else if rt = None
               then Inl (GPTFormattingError
                           (msg_gpt_failed @ lit ''object of type '' @ [39] @ lit ''NoneType''
                            @ [39] @ lit '' has no len()'') (Some TypeError))
               else Inr (clean_gpt_artifacts (py_or content []))),
      log_call (ChatCompletionsCreate (OPENAI_MODEL env) (system_prompt_of fr lg) rt) w)"
  by (auto simp: format_text_def system_prompt_of_def Let_def split: sum.splits list.splits)

lemma example_public_url:
  "S3_PUBLIC_URL env = lit ''https://cdn.example.com/'' \<Longrightarrow>
     get_public_url env k = lit ''https://cdn.example.com/'' @ k"
  by (simp add: get_public_url_def rstrip_chars_def lit_def)

lemma run_example_ok:
  "generate_html example_env example_request empty_world
     = (Inr example_response, example_world_done)"
  by (simp add: generate_html_def example_env_def example_request_def
          wrap_in_template_def example_page_encoded example_key_made upload_file_def
          repo_create_def insert_error_def example_data_ok example_lang example_public_url example_url_def
          example_row_def example_response_def example_stored_def example_world_done_def
          log_call_def Let_def empty_world_def)

lemma run_example_db_down:
  "generate_html example_env_db_down example_request empty_world
     = (Inl (LibraryError (lit ''connection refused'')), example_world_orphan)"
  by (simp add: generate_html_def example_env_def example_request_def example_env_db_down_def
          wrap_in_template_def example_page_encoded example_key_made upload_file_def
          repo_create_def insert_error_def example_data_ok example_lang example_public_url example_url_def
          example_stored_def example_world_orphan_def
          log_call_def Let_def empty_world_def)

lemma length_hex_digits: "length (hex_digits k n) = k"
  by (induction k arbitrary: n) simp_all

lemma hexdigit_lower_hex: "d < 16 \<Longrightarrow> hexdigit d \<in> set (lit ''0123456789abcdef'')"
  by (simp add: hexdigit_def lit_def) presburger

lemma hex_digits_lower_hex: "set (hex_digits k n) \<subseteq> set (lit ''0123456789abcdef'')"
proof (induction k arbitrary: n)
  case 0
  show ?case by simp
next
  case (Suc k)
  have "hexdigit (n mod 16) \<in> set (lit ''0123456789abcdef'')"
    by (rule hexdigit_lower_hex) simp
  with Suc [of "n div 16"] show ?case by simp
qed

lemma filter_fresh_id:
  "i \<notin> m_id ` set rows \<Longrightarrow> filter (\<lambda>r. m_id r = i) rows = []"
  by (induction rows) auto

lemma lit_eq_Nil [simp]: "lit cs = [] \<longleftrightarrow> cs = []"
  by (simp add: lit_def)

lemma run_example_both:
  "generate_html_article example_env example_request_both empty_world
     = (Inr example_response, example_world_done)"
  by (simp add: generate_html_article_def validate_content_fields_def falsy_def
        generate_html_def example_env_def example_request_def example_request_both_def
          wrap_in_template_def example_page_encoded example_key_made upload_file_def
          repo_create_def insert_error_def example_data_ok example_lang example_public_url example_url_def
          example_row_def example_response_def example_stored_def example_world_done_def
          log_call_def Let_def empty_world_def)

lemma example_system_prompt: "system_prompt_of None (lit ''ru'') = DEFAULT_SYSTEM_PROMPT"
  by (simp add: system_prompt_of_def py_or_def lit_def)

lemma run_example_chat_down:
  "generate_html example_env_chat_down example_raw_request empty_world
     = (Inl (GPTFormattingError (msg_gpt_failed @ lit ''rate limited'')
               (Some (LibraryError (lit ''rate limited'')))),
        empty_world\<lparr>calls := [example_chat_call]\<rparr>)"
  by (simp add: generate_html_def format_text_eq example_system_prompt
        example_env_chat_down_def example_env_def example_raw_request_def example_request_def
        example_chat_call_def log_call_def empty_world_def)

lemma run_example_upload_down:
  "generate_html example_env_upload_down example_request empty_world
     = (Inl (S3UploadError (msg_upload_failed @ example_key @ [39] @ lit '': ''
                              @ lit ''timed out'')
               (Some (LibraryError (lit ''timed out'')))),
        empty_world\<lparr>calls := [PutObject example_key example_page html_ctype]\<rparr>)"
  by (simp add: generate_html_def example_env_upload_down_def example_env_def
        example_request_def wrap_in_template_def example_page_encoded example_key_made
        upload_file_def log_call_def Let_def empty_world_def)

lemma strip_fences_hello:
  "re_sub_fence False (lit ''```'') (re_sub_fence True (lit ''```html'') (lit ''Hello world''))
     = lit ''Hello world''"
  by (simp add: lit_def match_literal_def ieq_def)

lemma split_hello: "split_nl (lit ''Hello world'') = [lit ''Hello world'']"
  by (simp add: lit_def)

lemma strip_hello: "strip (lit ''Hello world'') = lit ''Hello world''"
  by (simp add: lit_def strip_def lstrip_def rstrip_def isspace_def)


lemma clean_loop_started: "clean_loop ls True acc = acc @ ls"
  by (induction ls arbitrary: acc) (simp_all add: Let_def)

lemma startswith_Nil: "\<not> startswith [] (lit ''<'')"
  by (simp add: startswith_def lit_def)

lemma clean_loop_dropWhile:
  "clean_loop ls False acc = acc @ dropWhile (\<lambda>l. \<not> startswith (strip l) (lit ''<'')) ls"
  by (induction ls arbitrary: acc) (simp_all add: Let_def clean_loop_started startswith_Nil)

lemma strip_Nil: "strip [] = []"
  by (simp add: strip_def lstrip_def rstrip_def)

lemma clean_without_markup:
  assumes "list_all (\<lambda>l. \<not> startswith (strip l) (lit ''<''))
             (split_nl (re_sub_fence False (lit ''```'')
                          (re_sub_fence True (lit ''```html'') content)))"
  shows "clean_gpt_artifacts content = []"
proof -
  from assms have none: "dropWhile (\<lambda>l. \<not> startswith (strip l) (lit ''<''))
             (split_nl (re_sub_fence False (lit ''```'')
                          (re_sub_fence True (lit ''```html'') content))) = []"
    by (simp add: dropWhile_eq_Nil_conv list_all_iff)
  show ?thesis
    unfolding clean_gpt_artifacts_def Let_def clean_loop_dropWhile none
    by (simp add: strip_Nil)
qed

lemma py_or_Some: "py_or (Some s) [] = s"
  by (simp add: py_or_def)

lemma run_example_no_choice:
  "format_text example_env_no_choice (Some (lit ''We are hiring'')) None (lit ''ru'') empty_world
     = (Inl (GPTFormattingError (msg_gpt_failed @ lit ''list index out of range'')
               (Some IndexError)),
        empty_world\<lparr>calls := [example_chat_call]\<rparr>)"
  by (simp add: format_text_eq example_system_prompt example_env_no_choice_def example_env_def
        example_chat_call_def log_call_def empty_world_def)

lemma hello_without_markup:
  "list_all (\<lambda>l. \<not> startswith (strip l) (lit ''<''))
     (split_nl (re_sub_fence False (lit ''```'')
                  (re_sub_fence True (lit ''```html'') (lit ''Hello world''))))"
  by (simp add: strip_fences_hello split_hello strip_hello) (simp add: startswith_def lit_def)

lemma clean_hello: "clean_gpt_artifacts (lit ''Hello world'') = []"
  by (rule clean_without_markup [OF hello_without_markup])

lemma run_example_chatty:
  "generate_html example_env_chatty example_raw_request empty_world
     = (Inl (GPTFormattingError msg_gpt_empty None), empty_world\<lparr>calls := [example_chat_call]\<rparr>)"
  by (simp add: generate_html_def format_text_eq example_system_prompt
        example_env_chatty_def example_env_def example_raw_request_def example_request_def
        example_chat_call_def log_call_def empty_world_def py_or_Some clean_hello strip_Nil)














lemma generate_html_insert:
  assumes "generate_html env data w = (res, w')"
    and "DbInsert k \<in> set (calls_since w w')"
  shows "k = m_s3_key (article_kwargs env data) \<and> last (calls_since w w') = DbInsert k \<and>
         (case insert_error env (article_kwargs env data) (articles w) (id_seq w) of
            Some e \<Rightarrow> res = Inl e \<and> articles w' = articles w
          | None \<Rightarrow> (\<exists>resp. res = Inr resp))"
  using assms
  apply (simp add: generate_html_def Let_def article_kwargs_def
           split: if_splits prod.splits sum.splits)
       apply (auto dest!: format_text_world upload_file_Inl upload_file_Inr
                repo_create_Inl repo_create_Inr
                simp: calls_since_def log_call_def)
  done

lemma run_example_again:
  "generate_html example_env example_request example_world_done
     = (Inl IntegrityError, example_world_again)"
  by (simp add: generate_html_def example_env_def example_request_def
          wrap_in_template_def example_page_encoded example_key_made upload_file_def
          repo_create_def insert_error_def example_data_ok example_lang
          example_public_url example_url_def
          example_row_def example_stored_def example_world_done_def example_world_again_def
          log_call_def Let_def)

lemma run_example_big_id:
  "generate_html example_env example_request_big_id empty_world
     = (Inl DataError, example_world_orphan)"
  by (simp add: generate_html_def example_env_def example_request_def
          example_request_big_id_def
          wrap_in_template_def example_page_encoded example_key_made upload_file_def
          repo_create_def insert_error_def data_error_def
          example_public_url example_url_def
          example_stored_def example_world_orphan_def
          log_call_def Let_def empty_world_def)

lemma uuid4_bits:
  "uuid4 rnd = or (and rnd 0xffffffffffff0fff3fffffffffffffff) 0x40008000000000000000"
proof -
  have m1: "not (push_bit 48 (0xc000 :: 128 word)) = 0xffffffffffffffff3fffffffffffffff"
    by simp
  have m2: "not (push_bit 64 (0xf000 :: 128 word)) = 0xffffffffffff0fffffffffffffffffff"
    by simp
  have v1: "push_bit 48 (0x8000 :: 128 word) = 0x8000000000000000" by simp
  have v2: "push_bit 76 (4 :: 128 word) = 0x40000000000000000000" by simp
  have "uuid4 rnd = or (and (or (and rnd 0xffffffffffffffff3fffffffffffffff)
                           0x8000000000000000) 0xffffffffffff0fffffffffffffffffff)
                       0x40000000000000000000"
    by (simp only: uuid4_def Let_def m1 m2 v1 v2)
  also have "\<dots> = or (or (and (and rnd 0xffffffffffffffff3fffffffffffffff)
                              0xffffffffffff0fffffffffffffffffff)
                         (and 0x8000000000000000 0xffffffffffff0fffffffffffffffffff))
                     0x40000000000000000000"
    by (simp only: bit.conj_disj_distrib2)
  also have "\<dots> = or (and rnd (and 0xffffffffffffffff3fffffffffffffff
                                  0xffffffffffff0fffffffffffffffffff))
                     (or (and 0x8000000000000000 0xffffffffffff0fffffffffffffffffff)
                         0x40000000000000000000)"
    by (simp only: and.assoc or.assoc)
  also have "\<dots> = or (and rnd 0xffffffffffff0fff3fffffffffffffff) 0x40008000000000000000"
    by simp
  finally show ?thesis .
qed

lemma uuid4_random_bits:
  "and (uuid4 rnd) 0xffffffffffff0fff3fffffffffffffff
     = and rnd 0xffffffffffff0fff3fffffffffffffff"
proof -
  have "and (uuid4 rnd) 0xffffffffffff0fff3fffffffffffffff
          = or (and (and rnd 0xffffffffffff0fff3fffffffffffffff)
                    0xffffffffffff0fff3fffffffffffffff)
               (and 0x40008000000000000000 0xffffffffffff0fff3fffffffffffffff)"
    by (simp only: uuid4_bits bit.conj_disj_distrib2)
  also have "\<dots> = and rnd 0xffffffffffff0fff3fffffffffffffff"
    by (simp add: and.assoc)
  finally show ?thesis .
qed

lemma uuid4_eq_iff:
  "uuid4 r1 = uuid4 r2 \<longleftrightarrow>
     and r1 0xffffffffffff0fff3fffffffffffffff = and r2 0xffffffffffff0fff3fffffffffffffff"
proof
  assume "uuid4 r1 = uuid4 r2"
  then have "and (uuid4 r1) 0xffffffffffff0fff3fffffffffffffff
               = and (uuid4 r2) 0xffffffffffff0fff3fffffffffffffff"
    by simp
  then show "and r1 0xffffffffffff0fff3fffffffffffffff
               = and r2 0xffffffffffff0fff3fffffffffffffff"
    by (simp only: uuid4_random_bits)
next
  assume "and r1 0xffffffffffff0fff3fffffffffffffff
            = and r2 0xffffffffffff0fff3fffffffffffffff"
  then show "uuid4 r1 = uuid4 r2" by (simp only: uuid4_bits)
qed

lemma hexdigit_table: "d < 16 \<Longrightarrow> hexdigit d = lit ''0123456789abcdef'' ! d"
proof -
  assume "d < 16"
  then have "d \<in> {0, 1, 2, 3, 4, 5, 6, 7, 8, 9, 10, 11, 12, 13, 14, 15}" by simp arith
  then show ?thesis by (auto simp: hexdigit_def lit_def)
qed

lemma hexdigit_inj: "a < 16 \<Longrightarrow> b < 16 \<Longrightarrow> hexdigit a = hexdigit b \<Longrightarrow> a = b"
  by (auto simp: hexdigit_def split: if_splits)

lemma hex_digits_inj:
  "hex_digits k m = hex_digits k n \<Longrightarrow> m mod 16 ^ k = n mod 16 ^ k"
proof (induction k arbitrary: m n)
  case 0
  show ?case by simp
next
  case (Suc k)
  from Suc.prems have high: "hex_digits k (m div 16) = hex_digits k (n div 16)"
    and low: "hexdigit (m mod 16) = hexdigit (n mod 16)"
    by (simp_all add: length_hex_digits)
  from low have "m mod 16 = n mod 16"
    by (rule hexdigit_inj [rotated 2]) simp_all
  moreover from high have "m div 16 mod 16 ^ k = n div 16 mod 16 ^ k"
    by (rule Suc.IH)
  ultimately show ?case
    by (simp add: mod_mult2_eq)
qed

lemma uuid_hex_inj: "uuid_hex u = uuid_hex v \<Longrightarrow> u = v"
proof -
  assume "uuid_hex u = uuid_hex v"
  then have eq: "unat u mod 16 ^ 32 = unat v mod 16 ^ 32"
    unfolding uuid_hex_def by (rule hex_digits_inj)
  have p: "(16::nat) ^ 32 = 2 ^ LENGTH(128)" by simp
  have "unat u < 2 ^ LENGTH(128)" and "unat v < 2 ^ LENGTH(128)"
    by (rule unsigned_less)+
  with eq have "unat u = unat v" by (simp only: p mod_less)
  then show "u = v" by (rule word_unat_eq_iff [THEN iffD2])
qed

lemma hex_digits_nth:
  "i < k \<Longrightarrow> hex_digits k n ! i = hexdigit (n div 16 ^ (k - 1 - i) mod 16)"
proof (induction k arbitrary: n)
  case 0
  then show ?case by simp
next
  case (Suc k)
  show ?case
  proof (cases "i < k")
    case True
    then have "hex_digits (Suc k) n ! i = hex_digits k (n div 16) ! i"
      by (simp add: nth_append length_hex_digits)
    also have "\<dots> = hexdigit (n div 16 div 16 ^ (k - 1 - i) mod 16)"
      using True by (rule Suc.IH)
    also have "n div 16 div 16 ^ (k - 1 - i) = n div 16 ^ Suc (k - 1 - i)"
      by (simp add: div_mult2_eq)
    also have "Suc (k - 1 - i) = Suc k - 1 - i" using True by simp
    finally show ?thesis .
  next
    case False
    with Suc.prems have "i = k" by simp
    then show ?thesis by (simp add: nth_append length_hex_digits)
  qed
qed

lemma article_type_value_inj:
  "article_type_value a = article_type_value b \<Longrightarrow> a = b"
  by (cases a; cases b) (simp_all add: lit_def)

lemma article_type_value_table:
  "article_type_value t =
     (case t of VACANCY \<Rightarrow> lit ''vacancy'' | ASSESSMENT \<Rightarrow> lit ''assessment''
      | EMAIL \<Rightarrow> lit ''email'' | TEST_RESULTS \<Rightarrow> lit ''test_results''
      | CUSTOM \<Rightarrow> lit ''custom'')"
  by (cases t) simp_all

lemma article_type_value_no_slash: "47 \<notin> set (article_type_value t)"
  by (cases t) (simp_all add: lit_def)

lemma make_s3_key_eq_iff:
  "make_s3_key t1 (uuid_hex u1) = make_s3_key t2 (uuid_hex u2) \<longleftrightarrow> t1 = t2 \<and> u1 = u2"
proof
  assume eq: "make_s3_key t1 (uuid_hex u1) = make_s3_key t2 (uuid_hex u2)"
  let ?v1 = "article_type_value t1" and ?v2 = "article_type_value t2"
  let ?r1 = "lit ''/'' @ uuid_hex u1 @ lit ''.html''"
  let ?r2 = "lit ''/'' @ uuid_hex u2 @ lit ''.html''"
  from eq have e: "?v1 @ ?r1 = ?v2 @ ?r2" by (simp add: make_s3_key_def)
  have "length ?r1 = length ?r2" by (simp add: uuid_hex_def length_hex_digits)
  with e have "length ?v1 = length ?v2"
    by (metis add_right_cancel length_append)
  with e have v: "?v1 = ?v2" and r: "?r1 = ?r2" by simp_all
  from v have "t1 = t2" by (rule article_type_value_inj)
  moreover from r have "uuid_hex u1 = uuid_hex u2" by simp
  then have "u1 = u2" by (rule uuid_hex_inj)
  ultimately show "t1 = t2 \<and> u1 = u2" by simp
next
  assume "t1 = t2 \<and> u1 = u2"
  then show "make_s3_key t1 (uuid_hex u1) = make_s3_key t2 (uuid_hex u2)" by simp
qed

lemma generate_html_put:
  assumes "generate_html env data w = (res, w')"
    and "PutObject k b ct \<in> set (calls_since w w')"
  shows "k = make_s3_key (article_type data) (uuid_hex (uuid4 (urandom16 env)))
        \<and> filter is_put_object (calls_since w w') = [PutObject k b ct]"
  using assms
  apply (simp add: generate_html_def Let_def split: if_splits prod.splits sum.splits)
       apply (auto dest!: format_text_world upload_file_Inl upload_file_Inr
                repo_create_Inl repo_create_Inr
                simp: calls_since_def log_call_def)
  done

lemma uuid4_random: "uuid4 0x0123456789abcdef0123456789abcdef = 0x0123456789ab4def8123456789abcdef"
  by (simp add: uuid4_bits)

lemma uuid_hex_random:
  "uuid_hex (uuid4 0x0123456789abcdef0123456789abcdef) = lit ''0123456789ab4def8123456789abcdef''"
  by (simp add: uuid_hex_def uuid4_random hex_digits_numeral hex_digits_one hexdigit_def lit_def)

lemma example_key_random_made:
  "make_s3_key VACANCY (uuid_hex (uuid4 0x0123456789abcdef0123456789abcdef)) = example_key_random"
  by (simp add: make_s3_key_def uuid_hex_random example_key_random_def lit_def)

lemma run_example_random:
  "generate_html example_env_random example_request empty_world
     = (Inl (S3UploadError (msg_upload_failed @ example_key_random @ [39] @ lit '': ''
                              @ lit ''timed out'')
               (Some (LibraryError (lit ''timed out'')))),
        empty_world\<lparr>calls := [PutObject example_key_random example_page html_ctype]\<rparr>)"
  by (simp add: generate_html_def example_env_random_def example_env_upload_down_def
        example_env_def example_request_def wrap_in_template_def example_page_encoded
        example_key_random_made upload_file_def log_call_def Let_def empty_world_def)

lemma unat_byte: "x < 256 \<Longrightarrow> unat (word_of_nat x :: 8 word) = x"
  by (simp add: unat_of_nat)

lemma utf8_char_values:
  assumes "c \<le> 0x10FFFF"
  shows "map unat (utf8_char c) =
     (if c < 0x80 then [c]
      else if c < 0x800 then [0xC0 + c div 64, 0x80 + c mod 64]
      else if c < 0x10000 then [0xE0 + c div 4096, 0x80 + (c div 64) mod 64, 0x80 + c mod 64]
      else [0xF0 + c div 262144, 0x80 + (c div 4096) mod 64, 0x80 + (c div 64) mod 64,
            0x80 + c mod 64])"
proof -
  have a: "c < 0x80 \<Longrightarrow> c < 256" by simp
  have b: "c < 0x800 \<Longrightarrow> 0xC0 + c div 64 < 256" by simp
  have d: "c < 0x10000 \<Longrightarrow> 0xE0 + c div 4096 < 256" by simp
  have e: "0xF0 + c div 262144 < 256" using assms by simp
  have f: "\<And>x. 0x80 + x mod 64 < (256::nat)" by simp
  show ?thesis
    by (simp add: utf8_char_def unat_byte a b d e f del: of_nat_add of_nat_numeral)
qed

lemma split_step: "(x::nat) div 64 * (64 * k) + x mod 64 * k = x * k"
proof -
  have "(x div 64 * 64 + x mod 64) * k = x * k" by simp
  then show ?thesis by (simp only: add_mult_distrib mult.assoc)
qed

lemma split3: "(c::nat) div 4096 * 4096 + c div 64 mod 64 * 64 + c mod 64 = c"
proof -
  have "c div 4096 = c div 64 div 64" by (simp add: div_mult2_eq [symmetric])
  moreover have "c div 64 div 64 * (64 * 64) + c div 64 mod 64 * 64 = c div 64 * 64"
    by (rule split_step)
  ultimately have "c div 4096 * 4096 + c div 64 mod 64 * 64 = c div 64 * 64" by simp
  then show ?thesis by simp
qed

lemma split4:
  "(c::nat) div 262144 * 262144 + c div 4096 mod 64 * 4096 + c div 64 mod 64 * 64 + c mod 64 = c"
proof -
  have "c div 262144 = c div 4096 div 64" by (simp add: div_mult2_eq [symmetric])
  moreover have "c div 4096 div 64 * (64 * 4096) + c div 4096 mod 64 * 4096 = c div 4096 * 4096"
    by (rule split_step)
  ultimately have "c div 262144 * 262144 + c div 4096 mod 64 * 4096 = c div 4096 * 4096"
    by simp
  then show ?thesis by (simp only: split3)
qed

lemma decode_utf8_char:
  assumes "c \<le> 0x10FFFF" and "\<not> (0xD800 \<le> c \<and> c \<le> 0xDFFF)"
  shows "decode_from (map unat (utf8_char c) @ bs) = map_option ((#) c) (decode_from bs)"
proof -
  consider "c < 0x80" | "0x80 \<le> c" "c < 0x800" | "0x800 \<le> c" "c < 0x10000" | "0x10000 \<le> c"
    by linarith
  then show ?thesis
  proof cases
    case 1
    then show ?thesis by (simp add: utf8_char_values [OF assms(1)])
  next
    case 2
    then have "c div 64 < 32" by simp
    with 2 show ?thesis
      by (simp add: utf8_char_values [OF assms(1)] is_cont_def Let_def)
  next
    case 3
    then have "c div 4096 < 16" by simp
    with 3 assms(2) show ?thesis
      by (simp add: utf8_char_values [OF assms(1)] is_cont_def Let_def split3)
  next
    case 4
    from assms(1) have "c div 262144 < 8" by simp
    with 4 assms(1) show ?thesis
      by (simp add: utf8_char_values [OF assms(1)] is_cont_def Let_def split4)
  qed
qed

lemma decode_encode_from:
  "valid_str s \<Longrightarrow> encode_from i s = Inr b \<Longrightarrow> decode_utf8 b = Some s"
proof (induction s arbitrary: i b)
  case Nil
  then show ?case by (simp add: decode_utf8_def)
next
  case (Cons c cs)
  from Cons.prems(1) have c: "c \<le> 0x10FFFF" and cs: "valid_str cs"
    by (simp_all add: valid_str_def)
  from Cons.prems(2) have ok: "\<not> (0xD800 \<le> c \<and> c \<le> 0xDFFF)"
    by (auto split: if_splits)
  with Cons.prems(2) obtain bs where rest: "encode_from (Suc i) cs = Inr bs"
    and b: "b = utf8_char c @ bs"
    by (auto split: if_splits sum.splits)
  from Cons.IH [OF cs rest] have "decode_from (map unat bs) = Some cs"
    by (simp add: decode_utf8_def)
  with decode_utf8_char [OF c ok, of "map unat bs"] show ?case
    by (simp add: decode_utf8_def b)
qed

lemma decode_encode_utf8:
  "valid_str s \<Longrightarrow> encode_utf8 s = Inr b \<Longrightarrow> decode_utf8 b = Some s"
  unfolding encode_utf8_def by (rule decode_encode_from)

lemma example_template: "example_base_html = spec_base_html []"
  by (rule ext)+ (simp add: example_base_html_def spec_base_html_def lit_def)

lemma encode_from_Inl:
  "encode_from i s = Inl e \<Longrightarrow>
     \<exists>j<length s. e = UnicodeEncodeError (i + j) \<and> is_surrogate (s ! j)
                   \<and> \<not> list_ex is_surrogate (take j s)"
proof (induction s arbitrary: i)
  case Nil
  then show ?case by simp
next
  case (Cons c cs)
  show ?case
  proof (cases "is_surrogate c")
    case True
    with Cons.prems have "e = UnicodeEncodeError i" by (simp add: is_surrogate_def)
    with True show ?thesis by (intro exI [of _ 0]) simp
  next
    case False
    with Cons.prems have "encode_from (Suc i) cs = Inl e"
      by (auto simp: is_surrogate_def split: if_splits sum.splits)
    from Cons.IH [OF this] obtain j where "j < length cs"
      and "e = UnicodeEncodeError (Suc i + j)" and "is_surrogate (cs ! j)"
      and "\<not> list_ex is_surrogate (take j cs)"
      by blast
    with False show ?thesis by (intro exI [of _ "Suc j"]) simp
  qed
qed

lemma encode_from_Inr:
  "encode_from i s = Inr b \<Longrightarrow> \<not> list_ex is_surrogate s"
proof (induction s arbitrary: i b)
  case Nil
  show ?case by simp
next
  case (Cons c cs)
  from Cons.prems have "\<not> is_surrogate c"
    by (auto simp: is_surrogate_def split: if_splits)
  moreover from Cons.prems obtain bs where "encode_from (Suc i) cs = Inr bs"
    by (auto split: if_splits sum.splits)
  then have "\<not> list_ex is_surrogate cs" by (rule Cons.IH)
  ultimately show ?case by simp
qed

lemma encode_example_letters:
  "encode_utf8 [1070, 8364, 128512] = Inr [208, 174, 226, 130, 172, 240, 159, 152, 128]"
  by (simp add: encode_utf8_def utf8_char_def)

















section \<open>The claims\<close>

text \<open>
  C1. When the upload of a generation request fails, the request ends with the upload
  error that wraps the transport error, the metadata create is not called, and the table
  and its sequence are as they were before the request.
\<close>

theorem upload_failure_creates_no_record:
  assumes "generate_html env data w = (res, w')"
    and "PutObject k b ct \<in> set (calls_since w w')"
    and "put_object env k b ct = Some m"
  shows "res = Inl (S3UploadError (msg_upload_failed @ k @ [39] @ lit '': '' @ m)
                     (Some (LibraryError m)))
       \<and> articles w' = articles w \<and> id_seq w' = id_seq w
       \<and> filter is_db_insert (calls_since w w') = []"
  using assms
  apply (simp add: generate_html_def Let_def split: if_splits prod.splits sum.splits)
       apply (auto dest!: format_text_world upload_file_Inl upload_file_Inr
                repo_create_Inl repo_create_Inr
                simp: calls_since_def log_call_def)
  done

theorem upload_failure_creates_no_record_witness:
  "generate_html (example_env\<lparr>put_object := \<lambda>k b t. Some (lit ''timed out'')\<rparr>)
       example_request empty_world
     = (Inl (S3UploadError (msg_upload_failed @ example_key @ [39] @ lit '': ''
                              @ lit ''timed out'')
               (Some (LibraryError (lit ''timed out'')))),
        empty_world\<lparr>calls := [PutObject example_key example_page
                                (lit ''text/html; charset=utf-8'')]\<rparr>)
   \<and> articles empty_world = []"
proof -
  let ?env = "example_env\<lparr>put_object := \<lambda>k b t. Some (lit ''timed out'')\<rparr>"
  let ?w' = "empty_world\<lparr>calls := [PutObject example_key example_page
                                     (lit ''text/html; charset=utf-8'')]\<rparr>"
  obtain res w' where run: "generate_html ?env example_request empty_world = (res, w')"
    by (cases "generate_html ?env example_request empty_world")
  have w': "w' = ?w'"
    using run
    by (simp add: generate_html_def example_env_def example_request_def
          wrap_in_template_def example_page_encoded example_key_made upload_file_def
          log_call_def Let_def empty_world_def)
  have called: "PutObject example_key example_page (lit ''text/html; charset=utf-8'')
                  \<in> set (calls_since empty_world w')"
    by (simp add: w' calls_since_def empty_world_def)
  have failing: "put_object ?env example_key example_page (lit ''text/html; charset=utf-8'')
                   = Some (lit ''timed out'')"
    by (simp add: example_env_def)
  from upload_failure_creates_no_record [OF run called failing] run w'
  show ?thesis by (simp add: empty_world_def)
qed

text \<open>
  C2. A failing collaborator call is the last call of its request. A failing
  language-model call ends the request with \<open>GPTFormattingError\<close>, and a failing upload
  with \<open>S3UploadError\<close>, each holding the library's exception as its context. A failing
  insert of the metadata row is not wrapped, whatever makes it fail: the request ends
  with the exception of the database library itself (the database cannot be reached, a
  value is refused, the key or the identifier is already in the table), which is no
  application exception, carries no error code and no context; the table is as before.
\<close>

theorem collaborator_failures_end_the_request:
  assumes "generate_html env data w = (res, w')"
  shows "(\<forall>sp rt m. ChatCompletionsCreate (OPENAI_MODEL env) sp rt \<in> set (calls_since w w') \<longrightarrow>
            chat_completions_create env (OPENAI_MODEL env) sp rt = Inl m \<longrightarrow>
            res = Inl (GPTFormattingError (msg_gpt_failed @ m) (Some (LibraryError m)))
            \<and> calls_since w w' = [ChatCompletionsCreate (OPENAI_MODEL env) sp rt])
       \<and> (\<forall>k b ct m. PutObject k b ct \<in> set (calls_since w w') \<longrightarrow>
            put_object env k b ct = Some m \<longrightarrow>
            res = Inl (S3UploadError (msg_upload_failed @ k @ [39] @ lit '': '' @ m)
                         (Some (LibraryError m)))
            \<and> last (calls_since w w') = PutObject k b ct)
       \<and> (\<forall>k. DbInsert k \<in> set (calls_since w w') \<longrightarrow>
            last (calls_since w w') = DbInsert k
            \<and> k = make_s3_key (article_type data) (uuid_hex (uuid4 (urandom16 env)))
            \<and> (\<forall>m. flush_error env = Some m \<longrightarrow> res = Inl (LibraryError m))
            \<and> (flush_error env = None \<longrightarrow>
                 data_error (article_kwargs env data) \<or> 2147483647 < id_seq w \<longrightarrow>
                 res = Inl DataError)
            \<and> (flush_error env = None \<longrightarrow>
                 \<not> data_error (article_kwargs env data) \<longrightarrow> id_seq w \<le> 2147483647 \<longrightarrow>
                 k \<in> set (map m_s3_key (articles w)) \<or> id_seq w \<in> set (map m_id (articles w)) \<longrightarrow>
                 res = Inl IntegrityError)
            \<and> (\<forall>e. res = Inl e \<longrightarrow>
                  ((\<exists>m. e = LibraryError m) \<or> e = DataError \<or> e = IntegrityError)
                  \<and> exc_code e = None \<and> exc_context e = None \<and> exc_message e = None
                  \<and> articles w' = articles w))"
proof (intro conjI allI impI)
  fix sp rt m
  assume "ChatCompletionsCreate (OPENAI_MODEL env) sp rt \<in> set (calls_since w w')"
    and "chat_completions_create env (OPENAI_MODEL env) sp rt = Inl m"
  with assms
  have "res = Inl (GPTFormattingError (msg_gpt_failed @ m) (Some (LibraryError m)))
          \<and> calls_since w w' = [ChatCompletionsCreate (OPENAI_MODEL env) sp rt]"
    apply (simp add: generate_html_def Let_def format_text_eq
             split: if_splits prod.splits sum.splits)
         apply (auto dest!: upload_file_Inl upload_file_Inr repo_create_Inl repo_create_Inr
                  simp: calls_since_def log_call_def split: list.splits if_splits)
    done
  then show "res = Inl (GPTFormattingError (msg_gpt_failed @ m) (Some (LibraryError m)))"
    and "calls_since w w' = [ChatCompletionsCreate (OPENAI_MODEL env) sp rt]"
    by simp_all
next
  fix k b ct m
  assume "PutObject k b ct \<in> set (calls_since w w')" and "put_object env k b ct = Some m"
  with assms
  have "res = Inl (S3UploadError (msg_upload_failed @ k @ [39] @ lit '': '' @ m)
                     (Some (LibraryError m)))
          \<and> last (calls_since w w') = PutObject k b ct"
    apply (simp add: generate_html_def Let_def split: if_splits prod.splits sum.splits)
         apply (auto dest!: format_text_world upload_file_Inl upload_file_Inr
                  repo_create_Inl repo_create_Inr
                  simp: calls_since_def log_call_def)
    done
  then show "res = Inl (S3UploadError (msg_upload_failed @ k @ [39] @ lit '': '' @ m)
                     (Some (LibraryError m)))"
    and "last (calls_since w w') = PutObject k b ct"
    by simp_all
next
  fix k
  assume called: "DbInsert k \<in> set (calls_since w w')"
  note ins = generate_html_insert [OF assms called]
  show "last (calls_since w w') = DbInsert k" using ins by simp
  show "k = make_s3_key (article_type data) (uuid_hex (uuid4 (urandom16 env)))"
    using ins by (simp add: article_kwargs_def Let_def)
  have key: "m_s3_key (article_kwargs env data) = k" using ins by simp
  {
    fix m
    assume "flush_error env = Some m"
    with ins show "res = Inl (LibraryError m)" by (simp add: insert_error_def)
  }
  {
    assume "flush_error env = None"
      and "data_error (article_kwargs env data) \<or> 2147483647 < id_seq w"
    with ins show "res = Inl DataError" by (auto simp: insert_error_def)
  }
  {
    assume "flush_error env = None" and "\<not> data_error (article_kwargs env data)"
      and "id_seq w \<le> 2147483647"
      and "k \<in> set (map m_s3_key (articles w)) \<or> id_seq w \<in> set (map m_id (articles w))"
    with ins key show "res = Inl IntegrityError" by (auto simp: insert_error_def)
  }
  {
    fix e
    assume "res = Inl e"
    with ins have e: "insert_error env (article_kwargs env data) (articles w) (id_seq w) = Some e"
      and same: "articles w' = articles w"
      by (auto split: option.splits)
    from e show "(\<exists>m. e = LibraryError m) \<or> e = DataError \<or> e = IntegrityError"
      by (auto simp: insert_error_def split: option.splits if_splits)
    then show "exc_code e = None" and "exc_context e = None" and "exc_message e = None"
      by auto
    from same show "articles w' = articles w" .
  }
qed

theorem collaborator_failures_end_the_request_witness:
  "generate_html example_env_chat_down example_raw_request empty_world
     = (Inl (GPTFormattingError (msg_gpt_failed @ lit ''rate limited'')
               (Some (LibraryError (lit ''rate limited'')))),
        empty_world\<lparr>calls := [example_chat_call]\<rparr>)
   \<and> chat_completions_create example_env_chat_down (lit ''gpt-4o-mini'') DEFAULT_SYSTEM_PROMPT
         (Some (lit ''We are hiring'')) = Inl (lit ''rate limited'')
   \<and> calls_since empty_world (empty_world\<lparr>calls := [example_chat_call]\<rparr>) = [example_chat_call]
   \<and> generate_html example_env_upload_down example_request empty_world
     = (Inl (S3UploadError (msg_upload_failed @ example_key @ [39] @ lit '': ''
                              @ lit ''timed out'')
               (Some (LibraryError (lit ''timed out'')))),
        empty_world\<lparr>calls := [PutObject example_key example_page html_ctype]\<rparr>)
   \<and> put_object example_env_upload_down example_key example_page html_ctype
       = Some (lit ''timed out'')
   \<and> generate_html example_env_db_down example_request empty_world
       = (Inl (LibraryError (lit ''connection refused'')), example_world_orphan)
   \<and> flush_error example_env_db_down = Some (lit ''connection refused'')
   \<and> last (calls_since empty_world example_world_orphan) = DbInsert example_key
   \<and> generate_html example_env example_request example_world_done
       = (Inl IntegrityError, example_world_again)
   \<and> example_key \<in> set (map m_s3_key (articles example_world_done))
   \<and> last (calls_since example_world_done example_world_again) = DbInsert example_key
   \<and> articles example_world_again = articles example_world_done
   \<and> generate_html example_env example_request_big_id empty_world
       = (Inl DataError, example_world_orphan)"
proof -
  let ?w1 = "empty_world\<lparr>calls := [example_chat_call]\<rparr>"
  have model: "OPENAI_MODEL example_env_chat_down = lit ''gpt-4o-mini''"
    by (simp add: example_env_chat_down_def example_env_def)
  have called1: "ChatCompletionsCreate (OPENAI_MODEL example_env_chat_down) DEFAULT_SYSTEM_PROMPT
                   (Some (lit ''We are hiring'')) \<in> set (calls_since empty_world ?w1)"
    by (simp add: model calls_since_def empty_world_def example_chat_call_def)
  have failed1: "chat_completions_create example_env_chat_down
                   (OPENAI_MODEL example_env_chat_down) DEFAULT_SYSTEM_PROMPT
                   (Some (lit ''We are hiring'')) = Inl (lit ''rate limited'')"
    by (simp add: example_env_chat_down_def example_env_def)
  from collaborator_failures_end_the_request [OF run_example_chat_down] called1 failed1
  have trace1: "calls_since empty_world ?w1 = [example_chat_call]"
    by (simp add: model calls_since_def empty_world_def example_chat_call_def)
  have called3: "DbInsert example_key \<in> set (calls_since empty_world example_world_orphan)"
    by (simp add: calls_since_def empty_world_def example_world_orphan_def)
  have failed3: "flush_error example_env_db_down = Some (lit ''connection refused'')"
    by (simp add: example_env_db_down_def example_env_def)
  from collaborator_failures_end_the_request [OF run_example_db_down] called3
  have last3: "last (calls_since empty_world example_world_orphan) = DbInsert example_key"
    by blast
  have called4: "DbInsert example_key \<in> set (calls_since example_world_done example_world_again)"
    by (simp add: calls_since_def example_world_done_def example_world_again_def)
  from collaborator_failures_end_the_request [OF run_example_again] called4
  have last4: "last (calls_since example_world_done example_world_again) = DbInsert example_key"
    by blast
  have dup: "example_key \<in> set (map m_s3_key (articles example_world_done))"
    by (simp add: example_world_done_def example_row_def)
  have same: "articles example_world_again = articles example_world_done"
    by (simp add: example_world_done_def example_world_again_def)
  have failed2: "put_object example_env_upload_down example_key example_page html_ctype
                   = Some (lit ''timed out'')"
    by (simp add: example_env_upload_down_def example_env_def)
  from run_example_chat_down run_example_upload_down run_example_db_down run_example_again
    run_example_big_id failed1 trace1 failed2 failed3 last3 last4 dup same
  show ?thesis by (simp add: model)
qed

text \<open>
  With the database refusing connections, the request ends with the exception of the
  database library as it was raised, after the upload has been made.
\<close>

theorem persistence_failure_is_not_wrapped:
  "flush_error example_env_db_down = Some (lit ''connection refused'')
   \<and> generate_html example_env_db_down example_request empty_world
       = (Inl (LibraryError (lit ''connection refused'')), example_world_orphan)
   \<and> exc_code (LibraryError (lit ''connection refused'')) = None
   \<and> exc_context (LibraryError (lit ''connection refused'')) = None"
proof -
  have "flush_error example_env_db_down = Some (lit ''connection refused'')"
    by (simp add: example_env_db_down_def example_env_def)
  with run_example_db_down show ?thesis by simp
qed

text \<open>
  C3. When the upload of a generation request has succeeded and the request fails all the
  same, it is the insert of the metadata row that failed, as the last call of the
  request: no delete is sent to the object store, the uploaded object is still in the
  bucket under its key, and the table is as before the request. So a row with that key
  exists afterwards exactly when one existed before: the object is left without a row
  unless its key was in the table already.
\<close>

theorem failed_persistence_leaves_the_upload:
  assumes "generate_html env data w = (Inl e, w')"
    and "PutObject k b ct \<in> set (calls_since w w')"
    and "put_object env k b ct = None"
  shows "filter is_delete_object (calls_since w w') = []
       \<and> bucket w' k = Some \<lparr>body = b, content_type = ct\<rparr>
       \<and> articles w' = articles w
       \<and> last (calls_since w w') = DbInsert k
       \<and> insert_error env (article_kwargs env data) (articles w) (id_seq w) = Some e
       \<and> (list_ex (\<lambda>r. m_s3_key r = k) (articles w')
            \<longleftrightarrow> list_ex (\<lambda>r. m_s3_key r = k) (articles w))
       \<and> (k \<notin> set (map m_s3_key (articles w)) \<longrightarrow>
            filter (\<lambda>r. m_s3_key r = k) (articles w') = [])"
proof -
  have main: "filter is_delete_object (calls_since w w') = []
       \<and> bucket w' k = Some \<lparr>body = b, content_type = ct\<rparr>
       \<and> articles w' = articles w
       \<and> last (calls_since w w') = DbInsert k
       \<and> insert_error env (article_kwargs env data) (articles w) (id_seq w) = Some e"
    using assms
    apply (simp add: generate_html_def Let_def article_kwargs_def
             split: if_splits prod.splits sum.splits)
         apply (auto dest!: format_text_world upload_file_Inl upload_file_Inr
                  repo_create_Inl repo_create_Inr
                  simp: calls_since_def log_call_def)
    done
  then have same: "articles w' = articles w" by simp
  have "k \<notin> set (map m_s3_key (articles w)) \<Longrightarrow>
          filter (\<lambda>r. m_s3_key r = k) (articles w) = []"
    by (auto simp: filter_empty_conv)
  with main show ?thesis by (simp add: same)
qed

theorem failed_persistence_leaves_the_upload_witness:
  "generate_html example_env_db_down example_request empty_world
     = (Inl (LibraryError (lit ''connection refused'')), example_world_orphan)
   \<and> calls_since empty_world example_world_orphan
       = [PutObject example_key example_page html_ctype, DbInsert example_key]
   \<and> put_object example_env_db_down example_key example_page html_ctype = None
   \<and> bucket example_world_orphan example_key
       = Some \<lparr>body = example_page, content_type = html_ctype\<rparr>
   \<and> articles example_world_orphan = articles empty_world
   \<and> filter is_delete_object (calls_since empty_world example_world_orphan) = []
   \<and> example_key \<notin> set (map m_s3_key (articles empty_world))
   \<and> filter (\<lambda>r. m_s3_key r = example_key) (articles example_world_orphan) = []"
proof -
  have trace: "calls_since empty_world example_world_orphan
                 = [PutObject example_key example_page html_ctype, DbInsert example_key]"
    by (simp add: calls_since_def empty_world_def example_world_orphan_def)
  have ok: "put_object example_env_db_down example_key example_page html_ctype = None"
    by (simp add: example_env_db_down_def example_env_def)
  have called: "PutObject example_key example_page html_ctype
                  \<in> set (calls_since empty_world example_world_orphan)"
    by (simp add: trace)
  have fresh: "example_key \<notin> set (map m_s3_key (articles empty_world))"
    by (simp add: empty_world_def)
  from failed_persistence_leaves_the_upload [OF run_example_db_down called ok]
    run_example_db_down trace ok fresh
  show ?thesis by (auto simp: filter_empty_conv)
qed

text \<open>
  The same request served a second time with the same random bytes: the upload succeeds,
  the insert fails on the unique key, nothing is deleted, and the table holds a row for
  the key of the uploaded object, the row of the first request.
\<close>

theorem duplicate_key_leaves_a_recorded_object:
  "generate_html example_env example_request example_world_done
     = (Inl IntegrityError, example_world_again)
   \<and> put_object example_env example_key example_page html_ctype = None
   \<and> calls_since example_world_done example_world_again
       = [PutObject example_key example_page html_ctype, DbInsert example_key]
   \<and> bucket example_world_again example_key
       = Some \<lparr>body = example_page, content_type = html_ctype\<rparr>
   \<and> articles example_world_again = [example_row]
   \<and> m_s3_key example_row = example_key"
proof -
  have "put_object example_env example_key example_page html_ctype = None"
    by (simp add: example_env_def)
  moreover have "calls_since example_world_done example_world_again
       = [PutObject example_key example_page html_ctype, DbInsert example_key]"
    by (simp add: calls_since_def example_world_done_def example_world_again_def)
  moreover have "bucket example_world_again example_key
       = Some \<lparr>body = example_page, content_type = html_ctype\<rparr>"
    by (simp add: example_world_again_def example_stored_def)
  moreover have "articles example_world_again = [example_row]"
    by (simp add: example_world_again_def)
  moreover have "m_s3_key example_row = example_key"
    by (simp add: example_row_def)
  ultimately show ?thesis using run_example_again by simp
qed

text \<open>
  C4. Validation reads one field only, the one the mode of the request names: it succeeds
  exactly when \<open>html_content\<close> is non-empty in formatted mode, and exactly when
  \<open>raw_text\<close> is non-empty in raw mode; the other field may be populated as well. A
  request that fails it ends with the validation error before any step of the pipeline:
  the state, log of calls included, is the one before the request.
\<close>

theorem validation_reads_the_field_of_the_mode:
  "(validate_content_fields r = Inr r \<longleftrightarrow> \<not> falsy (required_field r))
   \<and> (falsy (required_field r) \<longrightarrow>
        validate_content_fields r = Inl (ValueError (msg_required (content_mode r)))
        \<and> generate_html_article env r w = (Inl (ValueError (msg_required (content_mode r))), w))"
  by (cases "content_mode r")
     (simp_all add: validate_content_fields_def required_field_def msg_required_def
        generate_html_article_def)

theorem validation_reads_the_field_of_the_mode_witness:
  "falsy (required_field example_request_empty)
   \<and> validate_content_fields example_request_empty
       = Inl (ValueError msg_html_content_required)
   \<and> generate_html_article example_env example_request_empty empty_world
       = (Inl (ValueError msg_html_content_required), empty_world)
   \<and> \<not> falsy (required_field example_request_both)
   \<and> validate_content_fields example_request_both = Inr example_request_both"
proof -
  have empty: "falsy (required_field example_request_empty)"
    by (simp add: falsy_def required_field_def example_request_empty_def example_request_def)
  have mode: "content_mode example_request_empty = FORMATTED"
    by (simp add: example_request_empty_def example_request_def)
  have both: "\<not> falsy (required_field example_request_both)"
    by (simp add: falsy_def required_field_def example_request_both_def example_request_def
          lit_def)
  from validation_reads_the_field_of_the_mode [of example_request_empty example_env empty_world]
    validation_reads_the_field_of_the_mode [of example_request_both example_env empty_world]
    empty both
  show ?thesis by (simp add: mode msg_required_def)
qed

text \<open>
  A request in formatted mode with both fields populated is accepted and served, so
  validation does not require that exactly one of the two fields be populated.
\<close>

theorem validation_accepts_two_populated_fields:
  "content_mode example_request_both = FORMATTED
   \<and> html_content example_request_both = Some (lit ''<p>Job</p>'')
   \<and> raw_text example_request_both = Some (lit ''We are hiring'')
   \<and> \<not> spec_valid example_request_both
   \<and> validate_content_fields example_request_both = Inr example_request_both
   \<and> generate_html_article example_env example_request_both empty_world
       = (Inr example_response, example_world_done)"
  by (simp add: run_example_both)
     (simp add: example_request_both_def example_request_def spec_valid_def populated_def
        validate_content_fields_def falsy_def lit_def)

text \<open>
  C5. A request in formatted mode with its \<open>html_content\<close> never reaches the language
  model. With the template the specification describes, the page is the document around
  the request's language, its title and \<open>html_content\<close> itself, each inserted as it
  is. The one object uploaded is the UTF-8 encoding of that page, which decodes back to
  the page, and it is in the bucket under the key of the request once the upload has
  succeeded. Only a page holding a surrogate cannot be encoded: the request then ends
  with the encoding error of its first surrogate before any call is made.
\<close>

theorem formatted_content_bypasses_the_model:
  assumes "content_mode data = FORMATTED"
    and "html_content data = Some h"
    and "base_html env = spec_base_html style"
    and "generate_html env data w = (res, w')"
  shows "filter is_chat_call (calls_since w w') = []
       \<and> wrap_in_template env (title data) (Some h) (lang data)
           = lit ''<!DOCTYPE html><html lang='' @ [34] @ lang data @ [34]
             @ lit ''><head><title>'' @ title data @ lit ''</title>'' @ style
             @ lit ''</head><body>'' @ h @ lit ''</body></html>''
       \<and> (case encode_utf8 (wrap_in_template env (title data) (Some h) (lang data)) of
            Inl e \<Rightarrow>
              res = Inl e \<and> w' = w
              \<and> (\<exists>j<length (wrap_in_template env (title data) (Some h) (lang data)).
                    e = UnicodeEncodeError j
                    \<and> is_surrogate (wrap_in_template env (title data) (Some h) (lang data) ! j))
          | Inr page \<Rightarrow>
              \<not> list_ex is_surrogate (wrap_in_template env (title data) (Some h) (lang data))
              \<and> (valid_str (wrap_in_template env (title data) (Some h) (lang data)) \<longrightarrow>
                   decode_utf8 page
                     = Some (wrap_in_template env (title data) (Some h) (lang data)))
              \<and> filter is_put_object (calls_since w w')
                = [PutObject (make_s3_key (article_type data) (uuid_hex (uuid4 (urandom16 env))))
                     page html_ctype]
              \<and> (case put_object env
                         (make_s3_key (article_type data) (uuid_hex (uuid4 (urandom16 env))))
                         page html_ctype of
                    Some m \<Rightarrow> bucket w' = bucket w
                  | None \<Rightarrow>
                      bucket w' = (bucket w)
                        (make_s3_key (article_type data) (uuid_hex (uuid4 (urandom16 env)))
                           \<mapsto> \<lparr>body = page, content_type = html_ctype\<rparr>)))"
proof -
  let ?page = "wrap_in_template env (title data) (Some h) (lang data)"
  have run: "filter is_chat_call (calls_since w w') = []
       \<and> (case encode_utf8 ?page of
            Inl e \<Rightarrow> res = Inl e \<and> w' = w
          | Inr page \<Rightarrow>
              filter is_put_object (calls_since w w')
                = [PutObject (make_s3_key (article_type data) (uuid_hex (uuid4 (urandom16 env))))
                     page html_ctype]
              \<and> (case put_object env
                         (make_s3_key (article_type data) (uuid_hex (uuid4 (urandom16 env))))
                         page html_ctype of
                    Some m \<Rightarrow> bucket w' = bucket w
                  | None \<Rightarrow>
                      bucket w' = (bucket w)
                        (make_s3_key (article_type data) (uuid_hex (uuid4 (urandom16 env)))
                           \<mapsto> \<lparr>body = page, content_type = html_ctype\<rparr>)))"
    using assms(1,2,4)
    apply (simp add: generate_html_def Let_def split: if_splits prod.splits sum.splits)
    apply (auto dest!: upload_file_Inl upload_file_Inr
                  repo_create_Inl repo_create_Inr
                  simp: calls_since_def log_call_def split: option.splits)
    done
  have page: "?page = lit ''<!DOCTYPE html><html lang='' @ [34] @ lang data @ [34]
             @ lit ''><head><title>'' @ title data @ lit ''</title>'' @ style
             @ lit ''</head><body>'' @ h @ lit ''</body></html>''"
    by (simp add: wrap_in_template_def assms(3) spec_base_html_def)
  have chat: "filter is_chat_call (calls_since w w') = []" using run by simp
  have upload: "(case encode_utf8 ?page of
            Inl e \<Rightarrow>
              res = Inl e \<and> w' = w
              \<and> (\<exists>j<length ?page. e = UnicodeEncodeError j \<and> is_surrogate (?page ! j))
          | Inr page \<Rightarrow>
              \<not> list_ex is_surrogate ?page
              \<and> (valid_str ?page \<longrightarrow> decode_utf8 page = Some ?page)
              \<and> filter is_put_object (calls_since w w')
                = [PutObject (make_s3_key (article_type data) (uuid_hex (uuid4 (urandom16 env))))
                     page html_ctype]
              \<and> (case put_object env
                         (make_s3_key (article_type data) (uuid_hex (uuid4 (urandom16 env))))
                         page html_ctype of
                    Some m \<Rightarrow> bucket w' = bucket w
                  | None \<Rightarrow>
                      bucket w' = (bucket w)
                        (make_s3_key (article_type data) (uuid_hex (uuid4 (urandom16 env)))
                           \<mapsto> \<lparr>body = page, content_type = html_ctype\<rparr>)))"
  proof (cases "encode_utf8 ?page")
    case (Inl e)
    then have "\<exists>j<length ?page. e = UnicodeEncodeError j \<and> is_surrogate (?page ! j)"
      unfolding encode_utf8_def using encode_from_Inl [of 0 ?page e] by auto
    with run Inl show ?thesis by auto
  next
    case (Inr b)
    then have "\<not> list_ex is_surrogate ?page"
      unfolding encode_utf8_def by (rule encode_from_Inr)
    moreover have "valid_str ?page \<Longrightarrow> decode_utf8 b = Some ?page"
      using Inr by (rule decode_encode_utf8 [rotated])
    ultimately show ?thesis using run Inr by auto
  qed
  from chat page upload show ?thesis by blast
qed

theorem formatted_content_bypasses_the_model_witness:
  "content_mode example_request = FORMATTED
   \<and> html_content example_request = Some (lit ''<p>Job</p>'')
   \<and> title example_request = lit ''Backend Engineer''
   \<and> lang example_request = lit ''ru''
   \<and> base_html example_env = spec_base_html []
   \<and> generate_html example_env example_request empty_world
       = (Inr example_response, example_world_done)
   \<and> wrap_in_template example_env (title example_request) (Some (lit ''<p>Job</p>''))
         (lang example_request)
       = lit ''<!DOCTYPE html><html lang='' @ [34] @ lit ''ru'' @ [34]
         @ lit ''><head><title>'' @ lit ''Backend Engineer'' @ lit ''</title>'' @ []
         @ lit ''</head><body>'' @ lit ''<p>Job</p>'' @ lit ''</body></html>''
   \<and> encode_utf8 (wrap_in_template example_env (title example_request)
                      (Some (lit ''<p>Job</p>'')) (lang example_request))
       = Inr example_page
   \<and> decode_utf8 example_page
       = Some (wrap_in_template example_env (title example_request)
                 (Some (lit ''<p>Job</p>'')) (lang example_request))
   \<and> filter is_chat_call (calls_since empty_world example_world_done) = []
   \<and> filter is_put_object (calls_since empty_world example_world_done)
       = [PutObject example_key example_page html_ctype]
   \<and> bucket example_world_done example_key
       = Some \<lparr>body = example_page, content_type = html_ctype\<rparr>
   \<and> encode_utf8 [1070, 8364, 128512] = Inr [208, 174, 226, 130, 172, 240, 159, 152, 128]
   \<and> decode_utf8 [208, 174, 226, 130, 172, 240, 159, 152, 128] = Some [1070, 8364, 128512]"
proof -
  let ?page = "wrap_in_template example_env (title example_request)
                 (Some (lit ''<p>Job</p>'')) (lang example_request)"
  have mode: "content_mode example_request = FORMATTED"
    and body: "html_content example_request = Some (lit ''<p>Job</p>'')"
    and title: "title example_request = lit ''Backend Engineer''"
    and lang: "lang example_request = lit ''ru''"
    by (simp_all add: example_request_def)
  have tpl: "base_html example_env = spec_base_html []"
    by (simp add: example_env_def example_template)
  note t = formatted_content_bypasses_the_model [OF mode body tpl run_example_ok]
  have enc: "encode_utf8 ?page = Inr example_page"
    by (simp add: wrap_in_template_def example_env_def example_request_def example_page_encoded)
  have valid: "valid_str ?page"
    by (simp add: wrap_in_template_def example_env_def example_request_def
          example_base_html_def valid_str_def lit_def)
  have key: "make_s3_key (article_type example_request) (uuid_hex (uuid4 (urandom16 example_env)))
               = example_key"
    by (simp add: example_env_def example_request_def example_key_made)
  have ok: "put_object example_env example_key example_page html_ctype = None"
    by (simp add: example_env_def)
  from t have page: "?page = lit ''<!DOCTYPE html><html lang='' @ [34] @ lit ''ru'' @ [34]
         @ lit ''><head><title>'' @ lit ''Backend Engineer'' @ lit ''</title>'' @ []
         @ lit ''</head><body>'' @ lit ''<p>Job</p>'' @ lit ''</body></html>''"
    by (simp only: title lang)
  from t have chat: "filter is_chat_call (calls_since empty_world example_world_done) = []"
    by simp
  from t enc valid have rest:
    "decode_utf8 example_page = Some ?page
     \<and> filter is_put_object (calls_since empty_world example_world_done)
         = [PutObject example_key example_page html_ctype]
     \<and> bucket example_world_done
         = (bucket empty_world)(example_key \<mapsto> \<lparr>body = example_page, content_type = html_ctype\<rparr>)"
    by (simp add: key ok)
  then have stored: "bucket example_world_done example_key
       = Some \<lparr>body = example_page, content_type = html_ctype\<rparr>"
    by simp
  have letters: "decode_utf8 [208, 174, 226, 130, 172, 240, 159, 152, 128]
                   = Some [1070, 8364, 128512]"
    by (rule decode_encode_utf8 [OF _ encode_example_letters]) (simp add: valid_str_def)
  from mode body title lang tpl run_example_ok page enc rest chat stored
    encode_example_letters letters
  show ?thesis by blast
qed




text \<open>
  C7. For a request with its raw text, \<open>format_text\<close> raises nothing but
  \<open>GPTFormattingError\<close>, and raises it exactly when the remote call fails, or the
  response holds no choice, or the cleaned content of the first choice (a missing content
  counting as the empty string) is empty or whitespace only. Otherwise it returns that
  cleaned content, which is then not empty.
\<close>

theorem format_text_fails_exactly_when:
  "((\<exists>m c. fst (format_text env (Some rt) fr lg w) = Inl (GPTFormattingError m c))
      \<longleftrightarrow> (case chat_completions_create env (OPENAI_MODEL env) (system_prompt_of fr lg)
                    (Some rt) of
              Inl m \<Rightarrow> True
            | Inr response \<Rightarrow>
                (case choices response of
                   [] \<Rightarrow> True
                 | content # rest \<Rightarrow> strip (clean_gpt_artifacts (py_or content [])) = [])))
   \<and> (\<forall>e. fst (format_text env (Some rt) fr lg w) = Inl e \<longrightarrow>
            (\<exists>m c. e = GPTFormattingError m c))
   \<and> (\<forall>html. fst (format_text env (Some rt) fr lg w) = Inr html \<longrightarrow>
            strip html \<noteq> [] \<and>
            (\<exists>response content rest.
               chat_completions_create env (OPENAI_MODEL env) (system_prompt_of fr lg)
                 (Some rt) = Inr response
               \<and> choices response = content # rest
               \<and> html = clean_gpt_artifacts (py_or content [])))"
  by (auto simp: format_text_eq split: sum.splits list.splits)

theorem format_text_fails_exactly_when_witness:
  "fst (format_text example_env (Some (lit ''We are hiring'')) None (lit ''ru'') empty_world)
     = Inr (lit ''<p>hi</p>'')
   \<and> strip (lit ''<p>hi</p>'') \<noteq> []
   \<and> chat_completions_create example_env (OPENAI_MODEL example_env)
         (system_prompt_of None (lit ''ru'')) (Some (lit ''We are hiring''))
       = Inr \<lparr>choices = [Some (lit ''<p>hi</p>'')]\<rparr>"
proof -
  have answer: "chat_completions_create example_env (OPENAI_MODEL example_env)
         (system_prompt_of None (lit ''ru'')) (Some (lit ''We are hiring''))
       = Inr \<lparr>choices = [Some (lit ''<p>hi</p>'')]\<rparr>"
    by (simp add: example_env_def)
  have clean: "clean_gpt_artifacts (lit ''<p>hi</p>'') = lit ''<p>hi</p>''"
    by (simp add: clean_gpt_artifacts_def lit_def match_literal_def ieq_def
        strip_def lstrip_def rstrip_def isspace_def startswith_def Let_def)
  have nonempty: "strip (lit ''<p>hi</p>'') \<noteq> []"
    by (simp add: lit_def strip_def lstrip_def rstrip_def isspace_def)
  have run: "fst (format_text example_env (Some (lit ''We are hiring'')) None (lit ''ru'')
                    empty_world) = Inr (lit ''<p>hi</p>'')"
    by (simp add: format_text_eq answer py_or_Some clean nonempty)
  from format_text_fails_exactly_when
         [of example_env "lit ''We are hiring''" None "lit ''ru''" empty_world] run answer
  show ?thesis by simp
qed

text \<open>
  A response without any choice: the remote call has not failed and there is no content
  to clean, yet \<open>format_text\<close> fails, with the wrapped \<open>IndexError\<close>.
\<close>

theorem empty_choices_fail_formatting:
  "chat_completions_create example_env_no_choice (lit ''gpt-4o-mini'') DEFAULT_SYSTEM_PROMPT
       (Some (lit ''We are hiring'')) = Inr \<lparr>choices = []\<rparr>
   \<and> format_text example_env_no_choice (Some (lit ''We are hiring'')) None (lit ''ru'')
         empty_world
       = (Inl (GPTFormattingError (msg_gpt_failed @ lit ''list index out of range'')
                 (Some IndexError)),
          empty_world\<lparr>calls := [example_chat_call]\<rparr>)"
proof -
  have "chat_completions_create example_env_no_choice (lit ''gpt-4o-mini'')
          DEFAULT_SYSTEM_PROMPT (Some (lit ''We are hiring'')) = Inr \<lparr>choices = []\<rparr>"
    by (simp add: example_env_no_choice_def example_env_def)
  with run_example_no_choice show ?thesis by simp
qed

text \<open>
  C8. Whatever a generation request uploads, it uploads once, under the key
  \<open>html/\<close>, the value of the article type (\<open>vacancy\<close>, \<open>assessment\<close>, \<open>email\<close>,
  \<open>test_results\<close> or \<open>custom\<close>), \<open>/\<close>, the token and \<open>.html\<close>. The token is the
  128-bit number made of the 16 random bytes of the request with its version and variant
  bits set (6 bits are fixed, 122 are the random ones), written as 32 lowercase
  hexadecimal digits, most significant first. Two requests get the same key exactly when
  they have the same article type and the same 122 random bits: title, content, language
  and source entity have no part in it.
\<close>

theorem object_key_scheme:
  assumes "generate_html env data w = (res, w')"
    and "PutObject k b ct \<in> set (calls_since w w')"
  shows "k = lit ''html/''
             @ (case article_type data of
                  VACANCY \<Rightarrow> lit ''vacancy'' | ASSESSMENT \<Rightarrow> lit ''assessment''
                | EMAIL \<Rightarrow> lit ''email'' | TEST_RESULTS \<Rightarrow> lit ''test_results''
                | CUSTOM \<Rightarrow> lit ''custom'')
             @ lit ''/'' @ uuid_hex (uuid4 (urandom16 env)) @ lit ''.html''
       \<and> uuid4 (urandom16 env)
           = or (and (urandom16 env) 0xffffffffffff0fff3fffffffffffffff) 0x40008000000000000000
       \<and> length (uuid_hex (uuid4 (urandom16 env))) = 32
       \<and> set (uuid_hex (uuid4 (urandom16 env))) \<subseteq> set (lit ''0123456789abcdef'')
       \<and> (\<forall>i<32. uuid_hex (uuid4 (urandom16 env)) ! i
                     = lit ''0123456789abcdef''
                         ! (unat (uuid4 (urandom16 env)) div 16 ^ (31 - i) mod 16))
       \<and> filter is_put_object (calls_since w w') = [PutObject k b ct]
       \<and> (\<forall>env2 data2 w2 res2 w2' k2 b2 ct2.
            generate_html env2 data2 w2 = (res2, w2') \<longrightarrow>
            PutObject k2 b2 ct2 \<in> set (calls_since w2 w2') \<longrightarrow>
            (k2 = k \<longleftrightarrow>
               article_type data2 = article_type data
               \<and> and (urandom16 env2) 0xffffffffffff0fff3fffffffffffffff
                   = and (urandom16 env) 0xffffffffffff0fff3fffffffffffffff))"
proof -
  let ?t = "uuid_hex (uuid4 (urandom16 env))"
  note put = generate_html_put [OF assms]
  have key: "k = make_s3_key (article_type data) ?t" using put by simp
  have c1: "k = lit ''html/''
             @ (case article_type data of
                  VACANCY \<Rightarrow> lit ''vacancy'' | ASSESSMENT \<Rightarrow> lit ''assessment''
                | EMAIL \<Rightarrow> lit ''email'' | TEST_RESULTS \<Rightarrow> lit ''test_results''
                | CUSTOM \<Rightarrow> lit ''custom'')
             @ lit ''/'' @ ?t @ lit ''.html''"
    unfolding key make_s3_key_def by (simp only: article_type_value_table)
  have c3: "length ?t = 32" by (simp add: uuid_hex_def length_hex_digits)
  have c4: "set ?t \<subseteq> set (lit ''0123456789abcdef'')"
    unfolding uuid_hex_def by (rule hex_digits_lower_hex)
  have c5: "\<forall>i<32. ?t ! i = lit ''0123456789abcdef''
                             ! (unat (uuid4 (urandom16 env)) div 16 ^ (31 - i) mod 16)"
  proof (intro allI impI)
    fix i :: nat
    assume "i < 32"
    then have "?t ! i = hexdigit (unat (uuid4 (urandom16 env)) div 16 ^ (32 - 1 - i) mod 16)"
      unfolding uuid_hex_def by (rule hex_digits_nth)
    also have "\<dots> = lit ''0123456789abcdef''
                        ! (unat (uuid4 (urandom16 env)) div 16 ^ (32 - 1 - i) mod 16)"
      by (rule hexdigit_table) simp
    finally show "?t ! i = lit ''0123456789abcdef''
                             ! (unat (uuid4 (urandom16 env)) div 16 ^ (31 - i) mod 16)"
      by simp
  qed
  have c7: "\<forall>env2 data2 w2 res2 w2' k2 b2 ct2.
            generate_html env2 data2 w2 = (res2, w2') \<longrightarrow>
            PutObject k2 b2 ct2 \<in> set (calls_since w2 w2') \<longrightarrow>
            (k2 = k \<longleftrightarrow>
               article_type data2 = article_type data
               \<and> and (urandom16 env2) 0xffffffffffff0fff3fffffffffffffff
                   = and (urandom16 env) 0xffffffffffff0fff3fffffffffffffff)"
  proof (intro allI impI)
    fix env2 data2 w2 res2 w2' k2 b2 ct2
    assume "generate_html env2 data2 w2 = (res2, w2')"
      and "PutObject k2 b2 ct2 \<in> set (calls_since w2 w2')"
    then have "k2 = make_s3_key (article_type data2) (uuid_hex (uuid4 (urandom16 env2)))"
      using generate_html_put by blast
    then show "k2 = k \<longleftrightarrow>
               article_type data2 = article_type data
               \<and> and (urandom16 env2) 0xffffffffffff0fff3fffffffffffffff
                   = and (urandom16 env) 0xffffffffffff0fff3fffffffffffffff"
      by (simp only: key make_s3_key_eq_iff uuid4_eq_iff)
  qed
  from c1 uuid4_bits [of "urandom16 env"] c3 c4 c5 put c7 show ?thesis by blast
qed

theorem object_key_scheme_witness:
  "generate_html example_env example_request empty_world
     = (Inr example_response, example_world_done)
   \<and> PutObject example_key example_page html_ctype
       \<in> set (calls_since empty_world example_world_done)
   \<and> example_key = lit ''html/vacancy/00000000000040008000000000000000.html''
   \<and> generate_html example_env_random example_request empty_world
       = (Inl (S3UploadError (msg_upload_failed @ example_key_random @ [39] @ lit '': ''
                                @ lit ''timed out'')
                 (Some (LibraryError (lit ''timed out'')))),
          empty_world\<lparr>calls := [PutObject example_key_random example_page html_ctype]\<rparr>)
   \<and> urandom16 example_env_random = 0x0123456789abcdef0123456789abcdef
   \<and> example_key_random = lit ''html/vacancy/0123456789ab4def8123456789abcdef.html''
   \<and> example_key_random \<noteq> example_key"
proof -
  let ?w = "empty_world\<lparr>calls := [PutObject example_key_random example_page html_ctype]\<rparr>"
  have called: "PutObject example_key example_page html_ctype
                  \<in> set (calls_since empty_world example_world_done)"
    by (simp add: calls_since_def empty_world_def example_world_done_def)
  have called2: "PutObject example_key_random example_page html_ctype
                  \<in> set (calls_since empty_world ?w)"
    by (simp add: calls_since_def empty_world_def)
  have rnd: "urandom16 example_env_random = 0x0123456789abcdef0123456789abcdef"
    by (simp add: example_env_random_def)
  have rnd0: "urandom16 example_env = 0" by (simp add: example_env_def)
  have differ: "and (0x0123456789abcdef0123456789abcdef :: 128 word)
                    0xffffffffffff0fff3fffffffffffffff
                  \<noteq> and 0 0xffffffffffff0fff3fffffffffffffff"
    by simp
  from object_key_scheme [OF run_example_ok called]
  have "\<And>k2 b2 ct2. PutObject k2 b2 ct2 \<in> set (calls_since empty_world ?w) \<Longrightarrow>
          (k2 = example_key \<longleftrightarrow>
             article_type example_request = article_type example_request
             \<and> and (urandom16 example_env_random) 0xffffffffffff0fff3fffffffffffffff
                 = and (urandom16 example_env) 0xffffffffffff0fff3fffffffffffffff)"
    using run_example_random by blast
  from this [OF called2] differ have ne: "example_key_random \<noteq> example_key"
    by (simp only: rnd rnd0 simp_thms)
  from run_example_ok called run_example_random rnd ne show ?thesis
    by (simp add: example_key_literal example_key_random_def)
qed

text \<open>
  C9. After a successful generation, \<open>get_article\<close> on the identifier of the response,
  in the resulting state, finds a row; its public URL and its article type are those of
  the response, and the lookup endpoint answers with the response itself.
\<close>

theorem generate_then_get_article:
  assumes "generate_html env data w = (Inr resp, w')"
  shows "\<exists>r. get_article (r_id resp) w' = Inr (Some r)
           \<and> m_public_url r = r_public_url resp
           \<and> article_type_value (m_article_type r) = r_article_type resp
           \<and> m_article_type r = article_type data
           \<and> get_html_article (r_id resp) w' = Inr resp"
  using assms
  apply (simp add: generate_html_def Let_def split: if_splits prod.splits sum.splits)
   apply (auto dest!: format_text_world upload_file_Inl upload_file_Inr
            repo_create_Inl repo_create_Inr
            simp: get_html_article_def get_article_def get_by_id_def log_call_def filter_fresh_id)
  done

theorem generate_then_get_article_witness:
  "generate_html example_env example_request empty_world
     = (Inr example_response, example_world_done)
   \<and> get_article 1 example_world_done = Inr (Some example_row)
   \<and> m_public_url example_row = r_public_url example_response
   \<and> article_type_value (m_article_type example_row) = r_article_type example_response
   \<and> get_html_article 1 example_world_done = Inr example_response"
proof -
  have row: "get_article 1 example_world_done = Inr (Some example_row)"
    by (simp add: get_article_def get_by_id_def example_world_done_def example_row_def)
  from generate_then_get_article [OF run_example_ok] run_example_ok row
  show ?thesis
    by (auto simp: example_response_def)
qed

text \<open>
  C10. When the first choice of the model's answer, once the code fences are removed,
  has no line that starts with \<open><\<close> after trimming, the cleaning step returns the empty
  string, whatever the answer was; a request in raw mode then ends with
  \<open>GPTFormattingError\<close> for an empty content, the call to the model is the only call
  made, and bucket and table are as before.
\<close>

theorem answer_without_markup_is_rejected:
  assumes "content_mode data = RAW"
    and "chat_completions_create env (OPENAI_MODEL env)
           (system_prompt_of (formatting_rules data) (lang data)) (raw_text data)
         = Inr response"
    and "choices response = Some content # rest"
    and "list_all (\<lambda>l. \<not> startswith (strip l) (lit ''<''))
           (split_nl (re_sub_fence False (lit ''```'')
                        (re_sub_fence True (lit ''```html'') content)))"
    and "generate_html env data w = (res, w')"
  shows "clean_gpt_artifacts content = []
       \<and> res = Inl (GPTFormattingError msg_gpt_empty None)
       \<and> calls_since w w'
           = [ChatCompletionsCreate (OPENAI_MODEL env)
                (system_prompt_of (formatting_rules data) (lang data)) (raw_text data)]
       \<and> bucket w' = bucket w \<and> articles w' = articles w \<and> id_seq w' = id_seq w"
proof -
  have clean: "clean_gpt_artifacts content = []"
    using assms(4) by (rule clean_without_markup)
  have "format_text env (raw_text data) (formatting_rules data) (lang data) w
          = (Inl (GPTFormattingError msg_gpt_empty None),
             log_call (ChatCompletionsCreate (OPENAI_MODEL env)
                (system_prompt_of (formatting_rules data) (lang data)) (raw_text data)) w)"
    by (simp add: format_text_eq assms(2) assms(3) py_or_Some clean strip_Nil)
  with assms(1) assms(5) clean show ?thesis
    by (auto simp: generate_html_def calls_since_def log_call_def)
qed

theorem answer_without_markup_is_rejected_witness:
  "content_mode example_raw_request = RAW
   \<and> chat_completions_create example_env_chatty (OPENAI_MODEL example_env_chatty)
         (system_prompt_of (formatting_rules example_raw_request) (lang example_raw_request))
         (raw_text example_raw_request)
       = Inr \<lparr>choices = [Some (lit ''Hello world'')]\<rparr>
   \<and> split_nl (re_sub_fence False (lit ''```'')
                 (re_sub_fence True (lit ''```html'') (lit ''Hello world'')))
       = [lit ''Hello world'']
   \<and> \<not> startswith (strip (lit ''Hello world'')) (lit ''<'')
   \<and> clean_gpt_artifacts (lit ''Hello world'') = []
   \<and> generate_html example_env_chatty example_raw_request empty_world
       = (Inl (GPTFormattingError msg_gpt_empty None),
          empty_world\<lparr>calls := [example_chat_call]\<rparr>)
   \<and> bucket (empty_world\<lparr>calls := [example_chat_call]\<rparr>) = bucket empty_world
   \<and> articles (empty_world\<lparr>calls := [example_chat_call]\<rparr>) = articles empty_world"
proof -
  have mode: "content_mode example_raw_request = RAW"
    by (simp add: example_raw_request_def)
  have answer: "chat_completions_create example_env_chatty (OPENAI_MODEL example_env_chatty)
         (system_prompt_of (formatting_rules example_raw_request) (lang example_raw_request))
         (raw_text example_raw_request)
       = Inr \<lparr>choices = [Some (lit ''Hello world'')]\<rparr>"
    by (simp add: example_env_chatty_def example_env_def)
  have first: "choices \<lparr>choices = [Some (lit ''Hello world'')]\<rparr> = Some (lit ''Hello world'') # []"
    by simp
  have lines: "split_nl (re_sub_fence False (lit ''```'')
                 (re_sub_fence True (lit ''```html'') (lit ''Hello world'')))
       = [lit ''Hello world'']"
    by (simp add: strip_fences_hello split_hello)
  have nostart: "\<not> startswith (strip (lit ''Hello world'')) (lit ''<'')"
    by (simp add: strip_hello) (simp add: startswith_def lit_def)
  note nomarkup = hello_without_markup
  from answer_without_markup_is_rejected [OF mode answer first nomarkup run_example_chatty]
    mode answer lines nostart run_example_chatty
  show ?thesis by simp
qed

end
